theory Spec2Isabelle
  imports Complex_Main
begin

section \<open>Match simulation engine of the two-paddle ball game (useGameEngine)\<close>

text \<open>
  The engine keeps one mutable aggregate, \<open>stateRef.current\<close>, and advances it once per
  animation frame with \<open>update\<close>. JavaScript numbers are modelled as mathematical reals
  (counters, scores and millisecond timestamps as integers), so every statement below is
  about the exact arithmetic of the code; rounding of IEEE doubles is outside the model.
  \<open>Math.random()\<close> and \<open>Date.now()\<close> are read from an environment record that the
  caller supplies for each tick, as are the input references the event handlers write
  (\<open>keysRef\<close>, \<open>mouseYRef\<close>, \<open>useMouseRef\<close>, \<open>touchActiveRef\<close>).
  The purely cosmetic parts of the state (particles, trails, screen shake, theme, the
  reduced-motion flag, audio, the rounded HUD timers kept in React state) never feed back
  into the simulation and are left out.
\<close>

subsection \<open>Data model\<close>

datatype Difficulty = Easy | Medium | Hard | Impossible

datatype GameMode = Single | Multi

datatype PowerUpType = Enlarge | Shrink | Slow | Fast

datatype GameStatus = Menu | Playing | Paused | GameOver

datatype Side = PlayerSide | AiSide

datatype SpawnRate = RateLow | RateNormal | RateHigh

text \<open>The type \<open>1 | -1\<close> of \<open>serveDirection\<close>.\<close>

datatype ServeDirection = ToRight | ToLeft

fun dirNum :: "ServeDirection \<Rightarrow> real" where
  "dirNum ToRight = 1"
| "dirNum ToLeft = -1"

record Ball =
  ball_x :: real
  ball_y :: real
  ball_vx :: real
  ball_vy :: real
  ball_speed :: real
  ball_radius :: real

record Paddle =
  pad_x :: real
  pad_y :: real
  pad_width :: real
  pad_height :: real
  pad_speed :: real
  pad_score :: int
  pad_dy :: real

record PowerUp =
  pu_x :: real
  pu_y :: real
  pu_radius :: real
  pu_type :: PowerUpType
  pu_ttl :: real
  pu_maxTtl :: real

record GameState =
  ball :: Ball
  player :: Paddle
  ai :: Paddle
  gameStatus :: GameStatus
  winner :: string
  rallyCount :: int
  maxRally :: int
  combo :: int
  lastHitTime :: int
  winScore :: int
  difficulty :: Difficulty
  isPowerHit :: bool
  powerHitTimer :: real
  mode :: GameMode
  powerUps :: "PowerUp list"
  powerUpSpawnTimer :: real
  lastHitBy :: Side
  playerPowerUpTimer :: real
  aiPowerUpTimer :: real
  ballSlowTimer :: real
  ballSlowFactor :: real
  ballFastTimer :: real
  ballFastFactor :: real
  playerShrinkTimer :: real
  aiShrinkTimer :: real
  serveCountdown :: real
  serveDirection :: ServeDirection
  serveCountdownLastInt :: int
  adaptiveAI :: bool
  powerUpsEnabled :: bool
  powerUpSpawnRate :: SpawnRate
  matchStartMs :: int
  matchEndMs :: int
  collectedPlayer :: int
  collectedAi :: int
  prevPlayerY :: real
  prevAiY :: real

text \<open>
  What one tick reads from outside the state: the pressed keys, the pointer and touch
  references, one value for each call of \<open>Math.random()\<close> that the simulation makes, and
  the clock.
\<close>

record Env =
  keys :: "string set"
  useMouse :: bool
  mouseY :: real
  touchActive :: bool
  rndAiError :: real
  rndSpawnType :: real
  rndSpawnX :: real
  rndSpawnY :: real
  rndSpawnInterval :: real
  rndServeVy :: real
  now :: int

subsection \<open>Constants and the difficulty table\<close>

abbreviation CANVAS_WIDTH :: real where "CANVAS_WIDTH \<equiv> 800"
abbreviation CANVAS_HEIGHT :: real where "CANVAS_HEIGHT \<equiv> 500"
abbreviation PADDLE_WIDTH :: real where "PADDLE_WIDTH \<equiv> 14"
abbreviation PADDLE_HEIGHT :: real where "PADDLE_HEIGHT \<equiv> 90"
abbreviation BALL_RADIUS :: real where "BALL_RADIUS \<equiv> 8"
abbreviation PADDLE_MARGIN :: real where "PADDLE_MARGIN \<equiv> 30"
abbreviation BALL_INITIAL_SPEED :: real where "BALL_INITIAL_SPEED \<equiv> 5"

record Settings =
  aiSpeed :: real
  aiReaction :: real
  aiError :: real
  ballSpeedMul :: real

fun DIFFICULTY_SETTINGS :: "Difficulty \<Rightarrow> Settings" where
  "DIFFICULTY_SETTINGS Easy =
     \<lparr>aiSpeed = 3, aiReaction = 3 / 100, aiError = 60, ballSpeedMul = 85 / 100\<rparr>"
| "DIFFICULTY_SETTINGS Medium =
     \<lparr>aiSpeed = 45 / 10, aiReaction = 6 / 100, aiError = 30, ballSpeedMul = 1\<rparr>"
| "DIFFICULTY_SETTINGS Hard =
     \<lparr>aiSpeed = 6, aiReaction = 1 / 10, aiError = 10, ballSpeedMul = 115 / 100\<rparr>"
| "DIFFICULTY_SETTINGS Impossible =
     \<lparr>aiSpeed = 8, aiReaction = 18 / 100, aiError = 2, ballSpeedMul = 13 / 10\<rparr>"

text \<open>The fixed logical step \<open>dt = 1 / 60\<close> of every timer.\<close>

abbreviation dt :: real where "dt \<equiv> 1 / 60"

subsection \<open>Initial state and state-machine entry points\<close>

definition initialPlayer :: Paddle where
  "initialPlayer = \<lparr>pad_x = PADDLE_MARGIN, pad_y = CANVAS_HEIGHT / 2 - PADDLE_HEIGHT / 2,
     pad_width = PADDLE_WIDTH, pad_height = PADDLE_HEIGHT, pad_speed = 7, pad_score = 0,
     pad_dy = 0\<rparr>"

definition initialAi :: "real \<Rightarrow> Paddle" where
  "initialAi spd = \<lparr>pad_x = CANVAS_WIDTH - PADDLE_MARGIN - PADDLE_WIDTH,
     pad_y = CANVAS_HEIGHT / 2 - PADDLE_HEIGHT / 2,
     pad_width = PADDLE_WIDTH, pad_height = PADDLE_HEIGHT, pad_speed = spd, pad_score = 0,
     pad_dy = 0\<rparr>"

text \<open>The value \<open>stateRef\<close> is created with, and the two \<open>prev...YRef\<close> trackers.\<close>

definition initialState :: GameState where
  "initialState = \<lparr>
     ball = \<lparr>ball_x = CANVAS_WIDTH / 2, ball_y = CANVAS_HEIGHT / 2, ball_vx = BALL_INITIAL_SPEED,
       ball_vy = 0, ball_speed = BALL_INITIAL_SPEED, ball_radius = BALL_RADIUS\<rparr>,
     player = initialPlayer,
     ai = initialAi 4.5,
     gameStatus = Menu,
     winner = [],
     rallyCount = 0,
     maxRally = 0,
     combo = 0,
     lastHitTime = 0,
     winScore = 7,
     difficulty = Medium,
     isPowerHit = False,
     powerHitTimer = 0,
     mode = Single,
     powerUps = [],
     powerUpSpawnTimer = 5,
     lastHitBy = PlayerSide,
     playerPowerUpTimer = 0,
     aiPowerUpTimer = 0,
     ballSlowTimer = 0,
     ballSlowFactor = 1,
     ballFastTimer = 0,
     ballFastFactor = 1,
     playerShrinkTimer = 0,
     aiShrinkTimer = 0,
     serveCountdown = 0,
     serveDirection = ToRight,
     serveCountdownLastInt = 0,
     adaptiveAI = False,
     powerUpsEnabled = True,
     powerUpSpawnRate = RateNormal,
     matchStartMs = 0,
     matchEndMs = 0,
     collectedPlayer = 0,
     collectedAi = 0,
     prevPlayerY = CANVAS_HEIGHT / 2 - PADDLE_HEIGHT / 2,
     prevAiY = CANVAS_HEIGHT / 2 - PADDLE_HEIGHT / 2\<rparr>"

text \<open>\<open>resetBall(direction)\<close>: launch from the centre at the difficulty's base speed.\<close>

definition resetBall :: "Env \<Rightarrow> ServeDirection \<Rightarrow> GameState \<Rightarrow> GameState" where
  "resetBall env direction s =
     (let spd = BALL_INITIAL_SPEED * ballSpeedMul (DIFFICULTY_SETTINGS (difficulty s)) in
      s\<lparr>ball := \<lparr>ball_x = CANVAS_WIDTH / 2, ball_y = CANVAS_HEIGHT / 2,
                 ball_vx = spd * dirNum direction, ball_vy = (rndServeVy env - 0.5) * 3,
                 ball_speed = spd, ball_radius = BALL_RADIUS\<rparr>,
        rallyCount := 0,
        combo := 0,
        isPowerHit := False,
        powerHitTimer := 0\<rparr>)"

text \<open>\<open>prepareServe(direction)\<close>: clear the per-point effects and arm the countdown.\<close>

definition prepareServe :: "ServeDirection \<Rightarrow> GameState \<Rightarrow> GameState" where
  "prepareServe direction s =
     (let spd = BALL_INITIAL_SPEED * ballSpeedMul (DIFFICULTY_SETTINGS (difficulty s)) in
      s\<lparr>powerUps := [],
        powerUpSpawnTimer := 4,
        player := (player s)\<lparr>pad_height := PADDLE_HEIGHT\<rparr>,
        ai := (ai s)\<lparr>pad_height := PADDLE_HEIGHT\<rparr>,
        playerPowerUpTimer := 0,
        aiPowerUpTimer := 0,
        playerShrinkTimer := 0,
        aiShrinkTimer := 0,
        ballSlowTimer := 0,
        ballSlowFactor := 1,
        ballFastTimer := 0,
        ballFastFactor := 1,
        rallyCount := 0,
        combo := 0,
        serveDirection := direction,
        serveCountdown := 3,
        serveCountdownLastInt := 0,
        ball := \<lparr>ball_x = CANVAS_WIDTH / 2, ball_y = CANVAS_HEIGHT / 2, ball_vx = 0, ball_vy = 0,
                 ball_speed = spd, ball_radius = BALL_RADIUS\<rparr>\<rparr>)"

text \<open>
  \<open>startGame(diff, winAt, gameMode)\<close>. The runtime options are React state captured by
  the callback, the first serve direction is \<open>Math.random() > 0.5 ? 1 : -1\<close> and the
  start time is \<open>Date.now()\<close>; all are arguments here.
\<close>

record StartArgs =
  argDifficulty :: Difficulty
  argWinAt :: int
  argMode :: GameMode
  argAdaptiveAI :: bool
  argPowerUpsEnabled :: bool
  argPowerUpSpawnRate :: SpawnRate
  argRndServe :: real
  argNow :: int

definition startGame :: "StartArgs \<Rightarrow> GameState \<Rightarrow> GameState" where
  "startGame a s =
     (let settings = DIFFICULTY_SETTINGS (argDifficulty a);
          aiSpd = (if argMode a = Multi then 7 else aiSpeed settings);
          s1 = s\<lparr>difficulty := argDifficulty a,
                 winScore := argWinAt a,
                 mode := argMode a,
                 adaptiveAI := argAdaptiveAI a,
                 powerUpsEnabled := argPowerUpsEnabled a,
                 powerUpSpawnRate := argPowerUpSpawnRate a,
                 player := initialPlayer,
                 ai := initialAi aiSpd,
                 prevPlayerY := pad_y initialPlayer,
                 prevAiY := pad_y (initialAi aiSpd),
                 gameStatus := Playing,
                 winner := [],
                 rallyCount := 0,
                 maxRally := 0,
                 combo := 0,
                 lastHitTime := 0,
                 isPowerHit := False,
                 powerHitTimer := 0,
                 powerUps := [],
                 powerUpSpawnTimer := 5,
                 lastHitBy := PlayerSide,
                 playerPowerUpTimer := 0,
                 aiPowerUpTimer := 0,
                 ballSlowTimer := 0,
                 ballSlowFactor := 1,
                 ballFastTimer := 0,
                 ballFastFactor := 1,
                 playerShrinkTimer := 0,
                 aiShrinkTimer := 0,
                 serveCountdown := 0,
                 serveDirection := ToRight,
                 matchStartMs := argNow a,
                 matchEndMs := 0,
                 collectedPlayer := 0,
                 collectedAi := 0\<rparr>
      in prepareServe (if argRndServe a > 0.5 then ToRight else ToLeft) s1)"

definition togglePause :: "GameState \<Rightarrow> GameState" where
  "togglePause s =
     (if gameStatus s = Playing then s\<lparr>gameStatus := Paused\<rparr>
      else if gameStatus s = Paused then s\<lparr>gameStatus := Playing\<rparr>
      else s)"

definition returnToMenu :: "GameState \<Rightarrow> GameState" where
  "returnToMenu s = s\<lparr>gameStatus := Menu\<rparr>"

text \<open>The blur / visibility handler pauses a running match.\<close>

definition pauseIfPlaying :: "GameState \<Rightarrow> GameState" where
  "pauseIfPlaying s = (if gameStatus s = Playing then s\<lparr>gameStatus := Paused\<rparr> else s)"

text \<open>The effects that copy the option flags into the state when they change.\<close>

definition syncAdaptiveAI :: "bool \<Rightarrow> GameState \<Rightarrow> GameState" where
  "syncAdaptiveAI b s = s\<lparr>adaptiveAI := b\<rparr>"

definition syncPowerUpsEnabled :: "bool \<Rightarrow> GameState \<Rightarrow> GameState" where
  "syncPowerUpsEnabled b s =
     (let s1 = s\<lparr>powerUpsEnabled := b\<rparr> in if \<not> b then s1\<lparr>powerUps := []\<rparr> else s1)"

definition syncPowerUpSpawnRate :: "SpawnRate \<Rightarrow> GameState \<Rightarrow> GameState" where
  "syncPowerUpSpawnRate r s = s\<lparr>powerUpSpawnRate := r\<rparr>"

text \<open>\<open>Math.max(0, Math.min(CANVAS_HEIGHT - height, y))\<close>, the clamp of a paddle position.\<close>

definition clampPaddleY :: "Paddle \<Rightarrow> Paddle" where
  "clampPaddleY p = p\<lparr>pad_y := max 0 (min (CANVAS_HEIGHT - pad_height p) (pad_y p))\<rparr>"

text \<open>
  One touch of the multi-player touch handler: a touch at canvas coordinates \<open>(x, y)\<close>
  sets the paddle of the half it falls in. (In single-player mode the handler only writes
  the pointer references, which are part of \<open>Env\<close>.)
\<close>

definition handleTouch :: "real \<Rightarrow> real \<Rightarrow> GameState \<Rightarrow> GameState" where
  "handleTouch x y s =
     (if mode s = Multi then
        (if x < CANVAS_WIDTH / 2 then
           s\<lparr>player := clampPaddleY ((player s)\<lparr>pad_y := y - pad_height (player s) / 2\<rparr>)\<rparr>
         else
           s\<lparr>ai := clampPaddleY ((ai s)\<lparr>pad_y := y - pad_height (ai s) / 2\<rparr>)\<rparr>)
      else s)"

subsection \<open>The tick: AI speed, paddle movement, displacement tracking\<close>

text \<open>Adaptive AI (single player only): the first block of \<open>update\<close>.\<close>

definition adaptiveAIStep :: "GameState \<Rightarrow> GameState" where
  "adaptiveAIStep s =
     (if mode s = Single then
        (let base = aiSpeed (DIFFICULTY_SETTINGS (difficulty s)) in
         if adaptiveAI s then
           (let diff = real_of_int (pad_score (player s) - pad_score (ai s));
                target0 = base + diff * 0.45;
                mn = base * 0.6;
                mx = base * 2.0;
                target1 = (if target0 < mn then mn else target0);
                target2 = (if target1 > mx then mx else target1)
            in s\<lparr>ai := (ai s)\<lparr>pad_speed := target2\<rparr>\<rparr>)
         else s\<lparr>ai := (ai s)\<lparr>pad_speed := base\<rparr>\<rparr>)
      else s)"

text \<open>Keyboard control of one paddle: \<open>dy = 0\<close>, then the up key, then the down key.\<close>

definition keyboardMove :: "bool \<Rightarrow> bool \<Rightarrow> Paddle \<Rightarrow> Paddle" where
  "keyboardMove up down p =
     (let p0 = p\<lparr>pad_dy := 0\<rparr>;
          p1 = (if up then p0\<lparr>pad_y := pad_y p0 - pad_speed p0, pad_dy := - pad_speed p0\<rparr> else p0);
          p2 = (if down then p1\<lparr>pad_y := pad_y p1 + pad_speed p1, pad_dy := pad_speed p1\<rparr> else p1)
      in p2)"

text \<open>Pointer control of the player's paddle in single-player mode.\<close>

definition mouseMove :: "real \<Rightarrow> Paddle \<Rightarrow> Paddle" where
  "mouseMove my p =
     (let targetY = my - pad_height p / 2;
          diff = targetY - pad_y p;
          p1 = p\<lparr>pad_dy := diff * 0.15\<rparr>
      in p1\<lparr>pad_y := pad_y p1 + pad_dy p1\<rparr>)"

text \<open>
  The bounce prediction of the AI: the loop
  \<open>while (predictedY < 0 || predictedY > CANVAS_HEIGHT) { ... }\<close>. \<open>bounceStep\<close> is
  the loop body, \<open>bouncePrediction\<close> the loop, one call per iteration. The loop ends for
  every real number: \<open>bounceMeasure\<close> decreases with each iteration.
\<close>

definition bounceStep :: "real \<Rightarrow> real" where
  "bounceStep predictedY =
     (let p1 = (if predictedY < 0 then - predictedY else predictedY);
          p2 = (if p1 > CANVAS_HEIGHT then 2 * CANVAS_HEIGHT - p1 else p1)
      in p2)"

definition bounceMeasure :: "real \<Rightarrow> nat" where
  "bounceMeasure p = 2 * nat \<lceil>\<bar>p\<bar>\<rceil> + (if p < 0 then 1 else 0)"

function bouncePrediction :: "real \<Rightarrow> real" where
  "bouncePrediction predictedY =
     (if predictedY < 0 \<or> predictedY > CANVAS_HEIGHT
      then bouncePrediction (bounceStep predictedY)
      else predictedY)"
  by pat_completeness auto
termination
proof (relation "measure bounceMeasure", goal_cases)
  case 1
  show ?case by simp
next
  case (2 p)
  have gap: "nat \<lceil>x\<rceil> + 1 \<le> nat \<lceil>y\<rceil>" if "0 \<le> x" "x \<le> 500" "500 < y" for x y :: real
  proof -
    have "\<lceil>x\<rceil> \<le> 500" using that by (simp add: ceiling_le_iff)
    moreover have "501 \<le> \<lceil>y\<rceil>" using that by (simp add: le_ceiling_iff)
    moreover have "0 \<le> \<lceil>x\<rceil>" using that by (simp add: le_ceiling_iff)
    ultimately show ?thesis by linarith
  qed
  have far: "nat \<lceil>x\<rceil> + 1 \<le> nat \<lceil>y\<rceil>" if "1000 < y" "x = y - 1000" for x y :: real
  proof -
    have "\<lceil>x\<rceil> = \<lceil>y\<rceil> - 1000" using that by simp
    moreover have "1001 \<le> \<lceil>y\<rceil>" using that by (simp add: le_ceiling_iff)
    ultimately show ?thesis by linarith
  qed
  have lt: "2 * a + (if c then 1 else 0) < 2 * b + (if d then 1 else 0)"
    if "a + 1 \<le> b" for a b :: nat and c d
    using that by simp
  consider (neg_in) "p < 0" "- p \<le> 500"
    | (neg_mid) "p < 0" "500 < - p" "- p \<le> 1000"
    | (neg_far) "p < 0" "1000 < - p"
    | (pos_mid) "500 < p" "p \<le> 1000"
    | (pos_far) "1000 < p"
    using 2 by linarith
  then have "bounceMeasure (bounceStep p) < bounceMeasure p"
  proof cases
    case neg_in
    then have "bounceStep p = - p" by (simp add: bounceStep_def)
    with neg_in show ?thesis by (simp add: bounceMeasure_def)
  next
    case neg_mid
    then have e: "bounceStep p = 1000 + p" by (simp add: bounceStep_def)
    have "nat \<lceil>\<bar>1000 + p\<bar>\<rceil> + 1 \<le> nat \<lceil>\<bar>p\<bar>\<rceil>"
      using neg_mid by (intro gap) simp_all
    then show ?thesis unfolding bounceMeasure_def e by (rule lt)
  next
    case neg_far
    then have e: "bounceStep p = 1000 + p" by (simp add: bounceStep_def)
    have "nat \<lceil>\<bar>1000 + p\<bar>\<rceil> + 1 \<le> nat \<lceil>\<bar>p\<bar>\<rceil>"
      using neg_far by (intro far) simp_all
    then show ?thesis unfolding bounceMeasure_def e by (rule lt)
  next
    case pos_mid
    then have e: "bounceStep p = 1000 - p" by (simp add: bounceStep_def)
    have "nat \<lceil>\<bar>1000 - p\<bar>\<rceil> + 1 \<le> nat \<lceil>\<bar>p\<bar>\<rceil>"
      using pos_mid by (intro gap) simp_all
    then show ?thesis unfolding bounceMeasure_def e by (rule lt)
  next
    case pos_far
    then have e: "bounceStep p = 1000 - p" by (simp add: bounceStep_def)
    have "nat \<lceil>\<bar>1000 - p\<bar>\<rceil> + 1 \<le> nat \<lceil>\<bar>p\<bar>\<rceil>"
      using pos_far by (intro far) simp_all
    then show ?thesis unfolding bounceMeasure_def e by (rule lt)
  qed
  then show ?case by simp
qed

declare bouncePrediction.simps [simp del]

text \<open>
  AI paddle movement (single-player mode): aim at the ball's height, or at its predicted
  height when it moves towards the AI, with the difficulty's error and reaction.
\<close>

definition aiMove :: "Env \<Rightarrow> GameState \<Rightarrow> Paddle" where
  "aiMove env s =
     (let settings = DIFFICULTY_SETTINGS (difficulty s);
          aiCenter = pad_y (ai s) + pad_height (ai s) / 2;
          aiErr = (rndAiError env - 0.5) * aiError settings;
          targetY =
            (if ball_vx (ball s) > 0 then
               (let timeToReach = (pad_x (ai s) - ball_x (ball s)) / ball_vx (ball s);
                    predictedY = ball_y (ball s) + ball_vy (ball s) * timeToReach
                in bouncePrediction predictedY + aiErr)
             else ball_y (ball s) + aiErr);
          aiDiff = targetY - aiCenter;
          a1 = (ai s)\<lparr>pad_dy := sgn aiDiff * min (\<bar>aiDiff\<bar> * aiReaction settings + 0.5) (pad_speed (ai s))\<rparr>;
          a2 = a1\<lparr>pad_y := pad_y a1 + pad_dy a1\<rparr>
      in clampPaddleY a2)"

text \<open>
  Player and opponent movement based on mode. (In multi-player mode the code also clears
  \<open>useMouseRef\<close>, which that mode never reads.)
\<close>

definition movePaddles :: "Env \<Rightarrow> GameState \<Rightarrow> GameState" where
  "movePaddles env s =
     (if mode s = Multi then
        (if touchActive env then
           s\<lparr>player := clampPaddleY (player s), ai := clampPaddleY (ai s)\<rparr>
         else
           s\<lparr>player := clampPaddleY
                 (keyboardMove (''w'' \<in> keys env \<or> ''W'' \<in> keys env)
                    (''s'' \<in> keys env \<or> ''S'' \<in> keys env) (player s)),
             ai := clampPaddleY
                 (keyboardMove (''ArrowUp'' \<in> keys env) (''ArrowDown'' \<in> keys env) (ai s))\<rparr>)
      else
        (let p = (if useMouse env then mouseMove (mouseY env) (player s)
                  else keyboardMove
                    (''ArrowUp'' \<in> keys env \<or> ''w'' \<in> keys env \<or> ''W'' \<in> keys env)
                    (''ArrowDown'' \<in> keys env \<or> ''s'' \<in> keys env \<or> ''S'' \<in> keys env)
                    (player s));
             s1 = s\<lparr>player := clampPaddleY p\<rparr>
         in s1\<lparr>ai := aiMove env s1\<rparr>))"

text \<open>Paddle \<open>dy\<close> from the actual movement between frames.\<close>

definition trackDy :: "GameState \<Rightarrow> GameState" where
  "trackDy s =
     s\<lparr>player := (player s)\<lparr>pad_dy := pad_y (player s) - prevPlayerY s\<rparr>,
       ai := (ai s)\<lparr>pad_dy := pad_y (ai s) - prevAiY s\<rparr>,
       prevPlayerY := pad_y (player s),
       prevAiY := pad_y (ai s)\<rparr>"

definition powerHitTimerStep :: "GameState \<Rightarrow> GameState" where
  "powerHitTimerStep s =
     (if powerHitTimer s > 0 then
        (let t = powerHitTimer s - 1 / 60 in
         if t \<le> 0 then s\<lparr>isPowerHit := False, powerHitTimer := 0\<rparr>
         else s\<lparr>powerHitTimer := t\<rparr>)
      else s)"

subsection \<open>The tick: power-up spawning, expiry and effect timers\<close>

definition nextSpawnInterval :: "Env \<Rightarrow> SpawnRate \<Rightarrow> real" where
  "nextSpawnInterval env r =
     (case r of
        RateLow \<Rightarrow> 12 + rndSpawnInterval env * 8
      | RateHigh \<Rightarrow> 4 + rndSpawnInterval env * 4
      | RateNormal \<Rightarrow> 8 + rndSpawnInterval env * 6)"

definition spawnPowerUps :: "Env \<Rightarrow> GameState \<Rightarrow> GameState" where
  "spawnPowerUps env s =
     (if powerUpsEnabled s \<and> serveCountdown s \<le> 0 then
        (let t = powerUpSpawnTimer s - dt in
         if t \<le> 0 then
           (let r = rndSpawnType env;
                ty = (if r < 0.3 then Enlarge
                      else if r < 0.55 then Slow
                      else if r < 0.8 then Fast
                      else Shrink);
                px = 90 + rndSpawnX env * (CANVAS_WIDTH - 180);
                py = 55 + rndSpawnY env * (CANVAS_HEIGHT - 110);
                pus = (if length (powerUps s) \<ge> 3 then tl (powerUps s) else powerUps s);
                ttl = 10
            in s\<lparr>powerUps := pus @ [\<lparr>pu_x = px, pu_y = py, pu_radius = 12, pu_type = ty,
                                      pu_ttl = ttl, pu_maxTtl = ttl\<rparr>],
                 powerUpSpawnTimer := nextSpawnInterval env (powerUpSpawnRate s)\<rparr>)
         else s\<lparr>powerUpSpawnTimer := t\<rparr>)
      else s)"

definition ttlStep :: "GameState \<Rightarrow> GameState" where
  "ttlStep s =
     (if length (powerUps s) > 0 then
        s\<lparr>powerUps := filter (\<lambda>pu. pu_ttl pu > 0)
                        (map (\<lambda>pu. pu\<lparr>pu_ttl := pu_ttl pu - dt\<rparr>) (powerUps s))\<rparr>
      else s)"

definition playerEnlargeTimerStep :: "GameState \<Rightarrow> GameState" where
  "playerEnlargeTimerStep s =
     (if playerPowerUpTimer s > 0 then
        (let t = playerPowerUpTimer s - dt in
         if t \<le> 0 then
           s\<lparr>player := (player s)\<lparr>pad_height := PADDLE_HEIGHT\<rparr>, playerPowerUpTimer := 0\<rparr>
         else s\<lparr>playerPowerUpTimer := t\<rparr>)
      else s)"

definition aiEnlargeTimerStep :: "GameState \<Rightarrow> GameState" where
  "aiEnlargeTimerStep s =
     (if aiPowerUpTimer s > 0 then
        (let t = aiPowerUpTimer s - dt in
         if t \<le> 0 then
           s\<lparr>ai := (ai s)\<lparr>pad_height := PADDLE_HEIGHT\<rparr>, aiPowerUpTimer := 0\<rparr>
         else s\<lparr>aiPowerUpTimer := t\<rparr>)
      else s)"

definition playerShrinkTimerStep :: "GameState \<Rightarrow> GameState" where
  "playerShrinkTimerStep s =
     (if playerShrinkTimer s > 0 then
        (let t = playerShrinkTimer s - dt in
         if t \<le> 0 then
           s\<lparr>player := (player s)\<lparr>pad_height := PADDLE_HEIGHT\<rparr>, playerShrinkTimer := 0\<rparr>
         else s\<lparr>playerShrinkTimer := t\<rparr>)
      else s)"

definition aiShrinkTimerStep :: "GameState \<Rightarrow> GameState" where
  "aiShrinkTimerStep s =
     (if aiShrinkTimer s > 0 then
        (let t = aiShrinkTimer s - dt in
         if t \<le> 0 then
           s\<lparr>ai := (ai s)\<lparr>pad_height := PADDLE_HEIGHT\<rparr>, aiShrinkTimer := 0\<rparr>
         else s\<lparr>aiShrinkTimer := t\<rparr>)
      else s)"

text \<open>Slow and fast ball timers: on expiry the recorded factor is divided out.\<close>

definition slowTimerStep :: "GameState \<Rightarrow> GameState" where
  "slowTimerStep s =
     (if ballSlowTimer s > 0 then
        (let t = ballSlowTimer s - dt in
         if t \<le> 0 then
           (let s1 = (if ballSlowFactor s \<noteq> 1 then
                        s\<lparr>ball := (ball s)\<lparr>ball_vx := ball_vx (ball s) / ballSlowFactor s,
                                            ball_vy := ball_vy (ball s) / ballSlowFactor s\<rparr>,
                          ballSlowFactor := 1\<rparr>
                      else s)
            in s1\<lparr>ballSlowTimer := 0\<rparr>)
         else s\<lparr>ballSlowTimer := t\<rparr>)
      else s)"

definition fastTimerStep :: "GameState \<Rightarrow> GameState" where
  "fastTimerStep s =
     (if ballFastTimer s > 0 then
        (let t = ballFastTimer s - dt in
         if t \<le> 0 then
           (let s1 = (if ballFastFactor s \<noteq> 1 then
                        s\<lparr>ball := (ball s)\<lparr>ball_vx := ball_vx (ball s) / ballFastFactor s,
                                            ball_vy := ball_vy (ball s) / ballFastFactor s\<rparr>,
                          ballFastFactor := 1\<rparr>
                      else s)
            in s1\<lparr>ballFastTimer := 0\<rparr>)
         else s\<lparr>ballFastTimer := t\<rparr>)
      else s)"

text \<open>The six effect timers in the order of the code.\<close>

definition effectTimerSteps :: "GameState \<Rightarrow> GameState" where
  "effectTimerSteps s =
     fastTimerStep (slowTimerStep (aiShrinkTimerStep (playerShrinkTimerStep
       (aiEnlargeTimerStep (playerEnlargeTimerStep s)))))"

subsection \<open>The tick: serve countdown\<close>

text \<open>
  The branch of \<open>update\<close> taken while \<open>serveCountdown > 0\<close>: count down, launch the ball
  with \<open>resetBall\<close> when the countdown is over, and return.
\<close>

definition serveCountdownStep :: "Env \<Rightarrow> GameState \<Rightarrow> GameState" where
  "serveCountdownStep env s =
     (let s1 = s\<lparr>serveCountdown := serveCountdown s - dt\<rparr>;
          secLeft = max 0 \<lceil>serveCountdown s1\<rceil>;
          s2 = (if secLeft \<noteq> serveCountdownLastInt s1 \<and> secLeft > 0
                then s1\<lparr>serveCountdownLastInt := secLeft\<rparr> else s1);
          s3 = (if serveCountdown s2 \<le> 0
                then (let s2' = s2\<lparr>serveCountdown := 0, serveCountdownLastInt := 0\<rparr>
                      in resetBall env (serveDirection s2') s2')
                else s2)
      in s3)"

subsection \<open>The tick: ball movement, walls, paddles\<close>

definition moveBall :: "GameState \<Rightarrow> GameState" where
  "moveBall s =
     s\<lparr>ball := (ball s)\<lparr>ball_x := ball_x (ball s) + ball_vx (ball s),
                         ball_y := ball_y (ball s) + ball_vy (ball s)\<rparr>\<rparr>"

text \<open>Top/bottom wall collision: the two tests, in the order of the code.\<close>

definition wallCollision :: "GameState \<Rightarrow> GameState" where
  "wallCollision s =
     (let b = ball s;
          b1 = (if ball_y b - ball_radius b \<le> 0
                then b\<lparr>ball_y := ball_radius b, ball_vy := \<bar>ball_vy b\<bar>\<rparr> else b);
          b2 = (if ball_y b1 + ball_radius b1 \<ge> CANVAS_HEIGHT
                then b1\<lparr>ball_y := CANVAS_HEIGHT - ball_radius b1, ball_vy := - \<bar>ball_vy b1\<bar>\<rparr>
                else b1)
      in s\<lparr>ball := b2\<rparr>)"

text \<open>The overlap test at the head of \<open>checkPaddleCollision\<close>.\<close>

definition paddleOverlap :: "Ball \<Rightarrow> Paddle \<Rightarrow> bool" where
  "paddleOverlap b paddle \<longleftrightarrow>
     ball_x b - ball_radius b < pad_x paddle + pad_width paddle \<and>
     ball_x b + ball_radius b > pad_x paddle \<and>
     ball_y b + ball_radius b > pad_y paddle \<and>
     ball_y b - ball_radius b < pad_y paddle + pad_height paddle"

text \<open>
  The body of \<open>checkPaddleCollision(paddle, isPlayer)\<close>, statement by statement, in
  five steps. Speed increase: \<open>state.ball.speed = Math.min(state.ball.speed * 1.05, 14 * mul)\<close>.
\<close>

definition escalateSpeed :: "Settings \<Rightarrow> GameState \<Rightarrow> GameState" where
  "escalateSpeed settings s =
     s\<lparr>ball := (ball s)\<lparr>ball_speed :=
         min (ball_speed (ball s) * 1.05) (14 * ballSpeedMul settings)\<rparr>\<rparr>"

text \<open>Check for power hit (fast paddle movement).\<close>

definition powerHit :: "Settings \<Rightarrow> Paddle \<Rightarrow> GameState \<Rightarrow> GameState" where
  "powerHit settings paddle s =
     (let paddleSpeed = \<bar>pad_dy paddle\<bar> in
      if paddleSpeed > 4 then
        s\<lparr>isPowerHit := True,
          powerHitTimer := 0.5,
          ball := (ball s)\<lparr>ball_speed :=
            min (ball_speed (ball s) * 1.2) (16 * ballSpeedMul settings)\<rparr>\<rparr>
      else s)"

text \<open>
  The new velocity from the angle, the local \<open>speed\<close> and the slow/fast factors, and
  the push of the ball outside the paddle.
\<close>

definition deflect :: "real \<Rightarrow> real \<Rightarrow> Paddle \<Rightarrow> bool \<Rightarrow> GameState \<Rightarrow> GameState" where
  "deflect angle speed paddle isPlayer s =
     (let velMul = ballSlowFactor s * ballFastFactor s in
      s\<lparr>ball := (ball s)\<lparr>
          ball_vx := cos angle * speed * (if isPlayer then 1 else -1) * velMul,
          ball_vy := sin angle * speed * velMul,
          ball_x := (if isPlayer then pad_x paddle + pad_width paddle + ball_radius (ball s)
                     else pad_x paddle - ball_radius (ball s))\<rparr>\<rparr>)"

text \<open>Rally tracking.\<close>

definition trackRally :: "GameState \<Rightarrow> GameState" where
  "trackRally s =
     (let s1 = s\<lparr>rallyCount := rallyCount s + 1\<rparr> in
      if rallyCount s1 > maxRally s1 then s1\<lparr>maxRally := rallyCount s1\<rparr> else s1)"

text \<open>Combo, the time of the last hit, and the side that hit last.\<close>

definition trackCombo :: "Env \<Rightarrow> bool \<Rightarrow> GameState \<Rightarrow> GameState" where
  "trackCombo env isPlayer s =
     (let s1 = (if now env - lastHitTime s < 2000 \<and> isPlayer then s\<lparr>combo := combo s + 1\<rparr>
                else if isPlayer then s\<lparr>combo := 1\<rparr>
                else s)
      in s1\<lparr>lastHitTime := now env,
            lastHitBy := (if isPlayer then PlayerSide else AiSide)\<rparr>)"

text \<open>
  The handler. The local constant \<open>speed\<close> is read from \<open>state.ball.speed\<close> after the
  5 per cent escalation and before the power-hit block; the velocity is computed from
  that local.
\<close>

definition checkPaddleCollision :: "Env \<Rightarrow> Paddle \<Rightarrow> bool \<Rightarrow> GameState \<Rightarrow> GameState" where
  "checkPaddleCollision env paddle isPlayer s =
     (if paddleOverlap (ball s) paddle then
        (let settings = DIFFICULTY_SETTINGS (difficulty s);
             hitPos = (ball_y (ball s) - (pad_y paddle + pad_height paddle / 2))
                        / (pad_height paddle / 2);
             angle = hitPos * (pi / 3);
             s1 = escalateSpeed settings s;
             speed = ball_speed (ball s1);
             s2 = powerHit settings paddle s1;
             s3 = deflect angle speed paddle isPlayer s2;
             s4 = trackRally s3
         in trackCombo env isPlayer s4)
      else s)"

text \<open>Check paddle collisions: one call, chosen by the sign of \<open>vx\<close>.\<close>

definition paddleCollisions :: "Env \<Rightarrow> GameState \<Rightarrow> GameState" where
  "paddleCollisions env s =
     (if ball_vx (ball s) < 0 then checkPaddleCollision env (player s) True s
      else checkPaddleCollision env (ai s) False s)"

subsection \<open>The tick: scoring\<close>

definition scoreRight :: "Env \<Rightarrow> GameState \<Rightarrow> GameState" where
  "scoreRight env s =
     (if ball_x (ball s) < -20 then
        (let s1 = s\<lparr>ai := (ai s)\<lparr>pad_score := pad_score (ai s) + 1\<rparr>\<rparr> in
         if pad_score (ai s1) \<ge> winScore s1 then
           s1\<lparr>gameStatus := GameOver,
              winner := (if mode s1 = Multi then ''P2'' else ''AI''),
              matchEndMs := now env\<rparr>
         else prepareServe ToLeft s1)
      else s)"

definition scoreLeft :: "Env \<Rightarrow> GameState \<Rightarrow> GameState" where
  "scoreLeft env s =
     (if ball_x (ball s) > CANVAS_WIDTH + 20 then
        (let s1 = s\<lparr>player := (player s)\<lparr>pad_score := pad_score (player s) + 1\<rparr>\<rparr> in
         if pad_score (player s1) \<ge> winScore s1 then
           s1\<lparr>gameStatus := GameOver,
              winner := (if mode s1 = Multi then ''P1'' else ''Player''),
              matchEndMs := now env\<rparr>
         else prepareServe ToRight s1)
      else s)"

definition scoring :: "Env \<Rightarrow> GameState \<Rightarrow> GameState" where
  "scoring env s = scoreLeft env (scoreRight env s)"

subsection \<open>The tick: power-up pickup\<close>

definition powerUpOverlap :: "Ball \<Rightarrow> PowerUp \<Rightarrow> bool" where
  "powerUpOverlap b pu =
     (let dx = ball_x b - pu_x pu;
          dy = ball_y b - pu_y pu;
          distSq = dx * dx + dy * dy;
          rad = ball_radius b + pu_radius pu
      in distSq \<le> rad * rad)"

text \<open>The effect of a collected power-up, by type and by the side that last hit the ball.\<close>

definition applyPowerUp :: "PowerUp \<Rightarrow> GameState \<Rightarrow> GameState" where
  "applyPowerUp pu s =
     (let beneficiary = lastHitBy s;
          s1 = (if beneficiary = PlayerSide then s\<lparr>collectedPlayer := collectedPlayer s + 1\<rparr>
                else s\<lparr>collectedAi := collectedAi s + 1\<rparr>)
      in case pu_type pu of
           Enlarge \<Rightarrow>
             (if beneficiary = PlayerSide then
                s1\<lparr>player := (player s1)\<lparr>pad_height := min (PADDLE_HEIGHT * 1.6) (CANVAS_HEIGHT - 20)\<rparr>,
                   playerPowerUpTimer := 6,
                   playerShrinkTimer := 0\<rparr>
              else
                s1\<lparr>ai := (ai s1)\<lparr>pad_height := min (PADDLE_HEIGHT * 1.6) (CANVAS_HEIGHT - 20)\<rparr>,
                   aiPowerUpTimer := 6,
                   aiShrinkTimer := 0\<rparr>)
         | Shrink \<Rightarrow>
             (if beneficiary = PlayerSide then
                s1\<lparr>ai := (ai s1)\<lparr>pad_height := max (PADDLE_HEIGHT * 0.6) 22\<rparr>,
                   aiShrinkTimer := 6,
                   aiPowerUpTimer := 0\<rparr>
              else
                s1\<lparr>player := (player s1)\<lparr>pad_height := max (PADDLE_HEIGHT * 0.6) 22\<rparr>,
                   playerShrinkTimer := 6,
                   playerPowerUpTimer := 0\<rparr>)
         | Slow \<Rightarrow>
             (let factor = 0.6 in
              if ballSlowFactor s1 = 1 then
                s1\<lparr>ball := (ball s1)\<lparr>ball_vx := ball_vx (ball s1) * factor,
                                      ball_vy := ball_vy (ball s1) * factor\<rparr>,
                   ballSlowFactor := factor,
                   ballSlowTimer := 6\<rparr>
              else s1\<lparr>ballSlowTimer := 6\<rparr>)
         | Fast \<Rightarrow>
             (let factor = 1.6 in
              if ballFastFactor s1 = 1 then
                s1\<lparr>ball := (ball s1)\<lparr>ball_vx := ball_vx (ball s1) * factor,
                                      ball_vy := ball_vy (ball s1) * factor\<rparr>,
                   ballFastFactor := factor,
                   ballFastTimer := 6\<rparr>
              else s1\<lparr>ballFastTimer := 6\<rparr>))"

text \<open>
  \<open>state.powerUps.filter(pu => ...)\<close>: the callback runs on each power-up in order,
  applies the effect of a collected one to the state at once, and keeps the others.
\<close>

fun collectPowerUps :: "PowerUp list \<Rightarrow> GameState \<Rightarrow> PowerUp list \<times> GameState" where
  "collectPowerUps [] s = ([], s)"
| "collectPowerUps (pu # pus) s =
     (if powerUpOverlap (ball s) pu then collectPowerUps pus (applyPowerUp pu s)
      else (let (kept, s') = collectPowerUps pus s in (pu # kept, s')))"

definition powerUpPickup :: "GameState \<Rightarrow> GameState" where
  "powerUpPickup s = (let (kept, s') = collectPowerUps (powerUps s) s in s'\<lparr>powerUps := kept\<rparr>)"

subsection \<open>The tick as a whole\<close>

text \<open>Everything \<open>update\<close> does before it looks at the serve countdown.\<close>

definition beforeServe :: "Env \<Rightarrow> GameState \<Rightarrow> GameState" where
  "beforeServe env s =
     effectTimerSteps (ttlStep (spawnPowerUps env (powerHitTimerStep (trackDy
       (movePaddles env (adaptiveAIStep s))))))"

text \<open>
  The part of \<open>beforeServe\<close> that precedes the slow and fast ball timers; \<open>beforeServe\<close>
  is those two timer steps applied to its result.
\<close>

definition beforeBallTimers :: "Env \<Rightarrow> GameState \<Rightarrow> GameState" where
  "beforeBallTimers env s =
     aiShrinkTimerStep (playerShrinkTimerStep (aiEnlargeTimerStep (playerEnlargeTimerStep
       (ttlStep (spawnPowerUps env (powerHitTimerStep (trackDy
         (movePaddles env (adaptiveAIStep s)))))))))"

text \<open>Ball movement, wall collision and paddle collision of a rally tick.\<close>

definition rallyPhysics :: "Env \<Rightarrow> GameState \<Rightarrow> GameState" where
  "rallyPhysics env s = paddleCollisions env (wallCollision (moveBall s))"

definition update :: "Env \<Rightarrow> GameState \<Rightarrow> GameState" where
  "update env s =
     (if gameStatus s \<noteq> Playing then s
      else
        (let s1 = beforeServe env s in
         if serveCountdown s1 > 0 then serveCountdownStep env s1
         else powerUpPickup (scoring env (rallyPhysics env s1))))"

text \<open>
  The states the engine can be in: the initial one, and whatever the entry points, the
  event handlers and the ticks make of a state it can be in.
\<close>

inductive reachable :: "GameState \<Rightarrow> bool" where
  init: "reachable initialState"
| start: "reachable s \<Longrightarrow> reachable (startGame a s)"
| tick: "reachable s \<Longrightarrow> reachable (update env s)"
| pause: "reachable s \<Longrightarrow> reachable (togglePause s)"
| blur: "reachable s \<Longrightarrow> reachable (pauseIfPlaying s)"
| menu: "reachable s \<Longrightarrow> reachable (returnToMenu s)"
| touch: "reachable s \<Longrightarrow> reachable (handleTouch x y s)"
| optAdaptive: "reachable s \<Longrightarrow> reachable (syncAdaptiveAI b s)"
| optPowerUps: "reachable s \<Longrightarrow> reachable (syncPowerUpsEnabled b s)"
| optSpawnRate: "reachable s \<Longrightarrow> reachable (syncPowerUpSpawnRate r s)"

subsection \<open>Concrete environments and states used to exercise the theorems\<close>

text \<open>A tick with no key pressed and no pointer, every random draw at one half.\<close>

definition idleEnv :: Env where
  "idleEnv = \<lparr>keys = {}, useMouse = False, mouseY = 250, touchActive = False,
     rndAiError = 1 / 2, rndSpawnType = 1 / 2, rndSpawnX = 1 / 2, rndSpawnY = 1 / 2,
     rndSpawnInterval = 1 / 2, rndServeVy = 1 / 2, now = 10000\<rparr>"

text \<open>The same with the \<open>w\<close> key held down.\<close>

definition upKeyEnv :: Env where
  "upKeyEnv = idleEnv\<lparr>keys := {''w''}\<rparr>"

text \<open>
  A two-player rally on medium difficulty, power-ups off: the ball, at the serve speed 5,
  is one step away from the left paddle, level with where the paddle's centre will be
  once it has moved up by its speed 7.
\<close>

definition powerHitState :: GameState where
  "powerHitState = initialState\<lparr>gameStatus := Playing, mode := Multi, powerUpsEnabled := False,
     ai := initialAi 7,
     ball := \<lparr>ball_x = 50, ball_y = 243, ball_vx = -5, ball_vy = 0, ball_speed = 5,
              ball_radius = 8\<rparr>\<rparr>"

text \<open>All the definitions that make up one tick in two-player mode, for evaluation.\<close>

lemmas tick_defs = update_def beforeServe_def adaptiveAIStep_def movePaddles_def keyboardMove_def
  clampPaddleY_def trackDy_def powerHitTimerStep_def spawnPowerUps_def ttlStep_def
  effectTimerSteps_def playerEnlargeTimerStep_def aiEnlargeTimerStep_def
  playerShrinkTimerStep_def aiShrinkTimerStep_def slowTimerStep_def fastTimerStep_def
  rallyPhysics_def moveBall_def wallCollision_def paddleCollisions_def checkPaddleCollision_def
  paddleOverlap_def escalateSpeed_def powerHit_def deflect_def trackRally_def trackCombo_def
  scoring_def scoreLeft_def scoreRight_def powerUpPickup_def

lemmas concrete_defs = idleEnv_def upKeyEnv_def powerHitState_def initialState_def
  initialPlayer_def initialAi_def

text \<open>
  A single-player match on hard difficulty with the adaptive flag on, the player leading
  5 to 1; and the same match with the AI leading 6 to 0.
\<close>

definition adaptiveState :: GameState where
  "adaptiveState = initialState\<lparr>gameStatus := Playing, mode := Single, difficulty := Hard,
     adaptiveAI := True,
     player := initialPlayer\<lparr>pad_score := 5\<rparr>, ai := (initialAi 6)\<lparr>pad_score := 1\<rparr>\<rparr>"

definition trailingState :: GameState where
  "trailingState = adaptiveState\<lparr>player := initialPlayer\<lparr>pad_score := 0\<rparr>,
     ai := (initialAi 6)\<lparr>pad_score := 6\<rparr>\<rparr>"

text \<open>
  A ball overlapping the left paddle while that paddle moves 5 units per tick.
\<close>

definition hitState :: GameState where
  "hitState = initialState\<lparr>gameStatus := Playing, mode := Multi, powerUpsEnabled := False,
     ai := initialAi 7,
     player := initialPlayer\<lparr>pad_dy := 5\<rparr>,
     ball := \<lparr>ball_x = 40, ball_y = 250, ball_vx = -5, ball_vy = 0, ball_speed = 5,
              ball_radius = 8\<rparr>\<rparr>"

text \<open>
  Late in a two-player rally on medium difficulty: the logical speed has reached the
  normal cap 14 and the ball is one step away from the left paddle, which is moving up
  (\<open>topSpeedState\<close>); and the ball after that power hit, speed field 16 and velocity 14,
  one step away from the resting right paddle (\<open>fastBallState\<close>).
\<close>

definition topSpeedState :: GameState where
  "topSpeedState = powerHitState\<lparr>ball := \<lparr>ball_x = 59, ball_y = 243, ball_vx = -14,
     ball_vy = 0, ball_speed = 14, ball_radius = 8\<rparr>\<rparr>"

definition fastBallState :: GameState where
  "fastBallState = initialState\<lparr>gameStatus := Playing, mode := Multi, powerUpsEnabled := False,
     ai := initialAi 7,
     ball := \<lparr>ball_x = 736, ball_y = 250, ball_vx = 14, ball_vy = 0, ball_speed = 16,
              ball_radius = 8\<rparr>\<rparr>"

text \<open>
  A rally with a slow effect about to expire (one hundredth of a second left) while a
  fast effect has three seconds to go; the velocity carries both factors.
\<close>

definition slowExpiringState :: GameState where
  "slowExpiringState = initialState\<lparr>gameStatus := Playing, mode := Multi,
     ai := initialAi 7,
     powerUpsEnabled := False,
     ball := \<lparr>ball_x = 400, ball_y = 250, ball_vx = 48 / 10, ball_vy = 0, ball_speed = 5,
              ball_radius = 8\<rparr>,
     ballSlowTimer := 1 / 100, ballSlowFactor := 6 / 10,
     ballFastTimer := 3, ballFastFactor := 16 / 10\<rparr>"

text \<open>The mirror image: the fast effect expires, the slow one stays.\<close>

definition fastExpiringState :: GameState where
  "fastExpiringState = slowExpiringState\<lparr>ballSlowTimer := 3, ballFastTimer := 1 / 100\<rparr>"

text \<open>Both effects expire in the same tick.\<close>

definition bothExpiringState :: GameState where
  "bothExpiringState = slowExpiringState\<lparr>ballFastTimer := 1 / 100\<rparr>"

text \<open>
  Three paddle hits of one rally, 1500 ms apart on the clock: the left paddle returns the
  ball of \<open>hitState\<close> at time 10000 (\<open>comboHit1\<close>); the ball, back at the right paddle,
  is returned at time 11500 (\<open>comboHit2\<close>); back at the left paddle, it is returned at
  time 13000 (\<open>comboHit3\<close>).
\<close>

definition comboHit1 :: GameState where
  "comboHit1 = checkPaddleCollision (idleEnv\<lparr>now := 10000\<rparr>) (player hitState) True hitState"

definition atRightPaddle :: "GameState \<Rightarrow> GameState" where
  "atRightPaddle s = s\<lparr>ball := (ball s)\<lparr>ball_x := 750, ball_y := 250\<rparr>\<rparr>"

definition atLeftPaddle :: "GameState \<Rightarrow> GameState" where
  "atLeftPaddle s = s\<lparr>ball := (ball s)\<lparr>ball_x := 50, ball_y := 250\<rparr>\<rparr>"

definition comboHit2 :: GameState where
  "comboHit2 = checkPaddleCollision (idleEnv\<lparr>now := 11500\<rparr>) (ai comboHit1) False
     (atRightPaddle comboHit1)"

definition comboHit3 :: GameState where
  "comboHit3 = checkPaddleCollision (idleEnv\<lparr>now := 13000\<rparr>) (player comboHit2) True
     (atLeftPaddle comboHit2)"

text \<open>
  The ball about to leave the court on the left in a two-player match at 0 : 0
  (\<open>leftExitState\<close>), and the same with the right side one point short of winning
  (\<open>matchPointState\<close>).
\<close>

definition leftExitState :: GameState where
  "leftExitState = initialState\<lparr>gameStatus := Playing, mode := Multi, powerUpsEnabled := False,
     ai := initialAi 7,
     ball := \<lparr>ball_x = -15, ball_y = 100, ball_vx = -10, ball_vy = 2, ball_speed = 10,
              ball_radius = 8\<rparr>\<rparr>"

definition matchPointState :: GameState where
  "matchPointState = leftExitState\<lparr>ai := (initialAi 7)\<lparr>pad_score := 6\<rparr>\<rparr>"

subsection \<open>Invariants of the reachable states\<close>

text \<open>On each paddle, the enlarge timer or the shrink timer is zero.\<close>

definition timersExclusive :: "GameState \<Rightarrow> bool" where
  "timersExclusive s \<longleftrightarrow>
     (playerPowerUpTimer s = 0 \<or> playerShrinkTimer s = 0) \<and>
     (aiPowerUpTimer s = 0 \<or> aiShrinkTimer s = 0)"

text \<open>The ball has the radius 8 and its centre is at least a radius away from both walls.\<close>

definition ballInCourt :: "GameState \<Rightarrow> bool" where
  "ballInCourt s \<longleftrightarrow>
     ball_radius (ball s) = BALL_RADIUS \<and>
     ball_radius (ball s) \<le> ball_y (ball s) \<and>
     ball_y (ball s) \<le> CANVAS_HEIGHT - ball_radius (ball s)"

text \<open>
  What keeps the ball moving sideways: a positive logical speed, positive slow and fast
  factors, paddles at least 54 high (the shrunk height) against a ball of radius 8, and
  a horizontal velocity that is zero only while a serve countdown runs.
\<close>

definition ballMoving :: "GameState \<Rightarrow> bool" where
  "ballMoving s \<longleftrightarrow>
     ball_radius (ball s) = BALL_RADIUS \<and>
     0 < ball_speed (ball s) \<and>
     0 < ballSlowFactor s \<and> 0 < ballFastFactor s \<and>
     54 \<le> pad_height (player s) \<and> 54 \<le> pad_height (ai s) \<and>
     (serveCountdown s > 0 \<or> ball_vx (ball s) \<noteq> 0)"

text \<open>
  The arguments of a first match (hard, first to 7, single player, all options on), an
  enlarge and a shrink power-up lying on the court, and a ball about to cross the top
  wall.
\<close>

definition firstMatch :: StartArgs where
  "firstMatch = \<lparr>argDifficulty = Hard, argWinAt = 7, argMode = Single, argAdaptiveAI = True,
     argPowerUpsEnabled = True, argPowerUpSpawnRate = RateNormal, argRndServe = 3 / 4,
     argNow = 5000\<rparr>"

definition enlargePu :: PowerUp where
  "enlargePu = \<lparr>pu_x = 400, pu_y = 250, pu_radius = 12, pu_type = Enlarge, pu_ttl = 10,
     pu_maxTtl = 10\<rparr>"

definition shrinkPu :: PowerUp where
  "shrinkPu = enlargePu\<lparr>pu_type := Shrink\<rparr>"

definition topWallState :: GameState where
  "topWallState = initialState\<lparr>gameStatus := Playing, mode := Multi, powerUpsEnabled := False,
     ai := initialAi 7,
     ball := \<lparr>ball_x = 400, ball_y = 10, ball_vx = 5, ball_vy = -3, ball_speed = 6,
              ball_radius = 8\<rparr>\<rparr>"

definition bottomWallState :: GameState where
  "bottomWallState = topWallState\<lparr>ball := (ball topWallState)\<lparr>ball_y := 490, ball_vy := 3\<rparr>\<rparr>"

subsection \<open>What each step leaves unchanged\<close>

text \<open>
  For every step of the tick, the fields of the state (and of the ball and the paddles)
  that the step does not assign, as far as the properties below read them.
\<close>

lemma clampPaddleY_frame [simp]:
  "pad_x (clampPaddleY p) = pad_x p" "pad_width (clampPaddleY p) = pad_width p"
  "pad_height (clampPaddleY p) = pad_height p" "pad_speed (clampPaddleY p) = pad_speed p"
  "pad_score (clampPaddleY p) = pad_score p" "pad_dy (clampPaddleY p) = pad_dy p"
  by (simp_all add: clampPaddleY_def)

lemma keyboardMove_frame [simp]:
  "pad_x (keyboardMove u d p) = pad_x p" "pad_width (keyboardMove u d p) = pad_width p"
  "pad_height (keyboardMove u d p) = pad_height p" "pad_speed (keyboardMove u d p) = pad_speed p"
  "pad_score (keyboardMove u d p) = pad_score p"
  by (simp_all add: keyboardMove_def Let_def)

lemma mouseMove_frame [simp]:
  "pad_x (mouseMove m p) = pad_x p" "pad_width (mouseMove m p) = pad_width p"
  "pad_height (mouseMove m p) = pad_height p" "pad_speed (mouseMove m p) = pad_speed p"
  "pad_score (mouseMove m p) = pad_score p"
  by (simp_all add: mouseMove_def Let_def)

lemma aiMove_frame [simp]:
  "pad_x (aiMove env s) = pad_x (ai s)" "pad_width (aiMove env s) = pad_width (ai s)"
  "pad_height (aiMove env s) = pad_height (ai s)" "pad_speed (aiMove env s) = pad_speed (ai s)"
  "pad_score (aiMove env s) = pad_score (ai s)"
  by (simp_all add: aiMove_def Let_def)

lemma adaptiveAIStep_frame [simp]:
  "ball (adaptiveAIStep s) = ball s" "player (adaptiveAIStep s) = player s"
  "pad_x (ai (adaptiveAIStep s)) = pad_x (ai s)" "pad_y (ai (adaptiveAIStep s)) = pad_y (ai s)"
  "pad_width (ai (adaptiveAIStep s)) = pad_width (ai s)"
  "pad_height (ai (adaptiveAIStep s)) = pad_height (ai s)"
  "pad_score (ai (adaptiveAIStep s)) = pad_score (ai s)"
  "pad_dy (ai (adaptiveAIStep s)) = pad_dy (ai s)" "gameStatus (adaptiveAIStep s) = gameStatus s"
  "winner (adaptiveAIStep s) = winner s" "rallyCount (adaptiveAIStep s) = rallyCount s"
  "combo (adaptiveAIStep s) = combo s" "lastHitTime (adaptiveAIStep s) = lastHitTime s"
  "winScore (adaptiveAIStep s) = winScore s" "difficulty (adaptiveAIStep s) = difficulty s"
  "mode (adaptiveAIStep s) = mode s" "powerUps (adaptiveAIStep s) = powerUps s"
  "lastHitBy (adaptiveAIStep s) = lastHitBy s"
  "playerPowerUpTimer (adaptiveAIStep s) = playerPowerUpTimer s"
  "aiPowerUpTimer (adaptiveAIStep s) = aiPowerUpTimer s"
  "ballSlowTimer (adaptiveAIStep s) = ballSlowTimer s"
  "ballSlowFactor (adaptiveAIStep s) = ballSlowFactor s"
  "ballFastTimer (adaptiveAIStep s) = ballFastTimer s"
  "ballFastFactor (adaptiveAIStep s) = ballFastFactor s"
  "playerShrinkTimer (adaptiveAIStep s) = playerShrinkTimer s"
  "aiShrinkTimer (adaptiveAIStep s) = aiShrinkTimer s"
  "serveCountdown (adaptiveAIStep s) = serveCountdown s"
  "serveDirection (adaptiveAIStep s) = serveDirection s"
  "adaptiveAI (adaptiveAIStep s) = adaptiveAI s"
  by (simp_all add: adaptiveAIStep_def Let_def)

lemma movePaddles_frame [simp]:
  "ball (movePaddles env s) = ball s" "pad_x (player (movePaddles env s)) = pad_x (player s)"
  "pad_width (player (movePaddles env s)) = pad_width (player s)"
  "pad_height (player (movePaddles env s)) = pad_height (player s)"
  "pad_speed (player (movePaddles env s)) = pad_speed (player s)"
  "pad_score (player (movePaddles env s)) = pad_score (player s)"
  "pad_x (ai (movePaddles env s)) = pad_x (ai s)"
  "pad_width (ai (movePaddles env s)) = pad_width (ai s)"
  "pad_height (ai (movePaddles env s)) = pad_height (ai s)"
  "pad_speed (ai (movePaddles env s)) = pad_speed (ai s)"
  "pad_score (ai (movePaddles env s)) = pad_score (ai s)"
  "gameStatus (movePaddles env s) = gameStatus s" "winner (movePaddles env s) = winner s"
  "rallyCount (movePaddles env s) = rallyCount s" "combo (movePaddles env s) = combo s"
  "lastHitTime (movePaddles env s) = lastHitTime s" "winScore (movePaddles env s) = winScore s"
  "difficulty (movePaddles env s) = difficulty s" "mode (movePaddles env s) = mode s"
  "powerUps (movePaddles env s) = powerUps s" "lastHitBy (movePaddles env s) = lastHitBy s"
  "playerPowerUpTimer (movePaddles env s) = playerPowerUpTimer s"
  "aiPowerUpTimer (movePaddles env s) = aiPowerUpTimer s"
  "ballSlowTimer (movePaddles env s) = ballSlowTimer s"
  "ballSlowFactor (movePaddles env s) = ballSlowFactor s"
  "ballFastTimer (movePaddles env s) = ballFastTimer s"
  "ballFastFactor (movePaddles env s) = ballFastFactor s"
  "playerShrinkTimer (movePaddles env s) = playerShrinkTimer s"
  "aiShrinkTimer (movePaddles env s) = aiShrinkTimer s"
  "serveCountdown (movePaddles env s) = serveCountdown s"
  "serveDirection (movePaddles env s) = serveDirection s"
  "adaptiveAI (movePaddles env s) = adaptiveAI s"
  by (simp_all add: movePaddles_def Let_def)

lemma trackDy_frame [simp]:
  "ball (trackDy s) = ball s" "pad_x (player (trackDy s)) = pad_x (player s)"
  "pad_y (player (trackDy s)) = pad_y (player s)"
  "pad_width (player (trackDy s)) = pad_width (player s)"
  "pad_height (player (trackDy s)) = pad_height (player s)"
  "pad_speed (player (trackDy s)) = pad_speed (player s)"
  "pad_score (player (trackDy s)) = pad_score (player s)" "pad_x (ai (trackDy s)) = pad_x (ai s)"
  "pad_y (ai (trackDy s)) = pad_y (ai s)" "pad_width (ai (trackDy s)) = pad_width (ai s)"
  "pad_height (ai (trackDy s)) = pad_height (ai s)"
  "pad_speed (ai (trackDy s)) = pad_speed (ai s)" "pad_score (ai (trackDy s)) = pad_score (ai s)"
  "gameStatus (trackDy s) = gameStatus s" "winner (trackDy s) = winner s"
  "rallyCount (trackDy s) = rallyCount s" "combo (trackDy s) = combo s"
  "lastHitTime (trackDy s) = lastHitTime s" "winScore (trackDy s) = winScore s"
  "difficulty (trackDy s) = difficulty s" "mode (trackDy s) = mode s"
  "powerUps (trackDy s) = powerUps s" "lastHitBy (trackDy s) = lastHitBy s"
  "playerPowerUpTimer (trackDy s) = playerPowerUpTimer s"
  "aiPowerUpTimer (trackDy s) = aiPowerUpTimer s" "ballSlowTimer (trackDy s) = ballSlowTimer s"
  "ballSlowFactor (trackDy s) = ballSlowFactor s" "ballFastTimer (trackDy s) = ballFastTimer s"
  "ballFastFactor (trackDy s) = ballFastFactor s"
  "playerShrinkTimer (trackDy s) = playerShrinkTimer s"
  "aiShrinkTimer (trackDy s) = aiShrinkTimer s" "serveCountdown (trackDy s) = serveCountdown s"
  "serveDirection (trackDy s) = serveDirection s" "adaptiveAI (trackDy s) = adaptiveAI s"
  by (simp_all add: trackDy_def Let_def)

lemma powerHitTimerStep_frame [simp]:
  "ball (powerHitTimerStep s) = ball s" "player (powerHitTimerStep s) = player s"
  "ai (powerHitTimerStep s) = ai s" "gameStatus (powerHitTimerStep s) = gameStatus s"
  "winner (powerHitTimerStep s) = winner s" "rallyCount (powerHitTimerStep s) = rallyCount s"
  "combo (powerHitTimerStep s) = combo s" "lastHitTime (powerHitTimerStep s) = lastHitTime s"
  "winScore (powerHitTimerStep s) = winScore s" "difficulty (powerHitTimerStep s) = difficulty s"
  "mode (powerHitTimerStep s) = mode s" "powerUps (powerHitTimerStep s) = powerUps s"
  "lastHitBy (powerHitTimerStep s) = lastHitBy s"
  "playerPowerUpTimer (powerHitTimerStep s) = playerPowerUpTimer s"
  "aiPowerUpTimer (powerHitTimerStep s) = aiPowerUpTimer s"
  "ballSlowTimer (powerHitTimerStep s) = ballSlowTimer s"
  "ballSlowFactor (powerHitTimerStep s) = ballSlowFactor s"
  "ballFastTimer (powerHitTimerStep s) = ballFastTimer s"
  "ballFastFactor (powerHitTimerStep s) = ballFastFactor s"
  "playerShrinkTimer (powerHitTimerStep s) = playerShrinkTimer s"
  "aiShrinkTimer (powerHitTimerStep s) = aiShrinkTimer s"
  "serveCountdown (powerHitTimerStep s) = serveCountdown s"
  "serveDirection (powerHitTimerStep s) = serveDirection s"
  "adaptiveAI (powerHitTimerStep s) = adaptiveAI s"
  by (simp_all add: powerHitTimerStep_def Let_def)

lemma spawnPowerUps_frame [simp]:
  "ball (spawnPowerUps env s) = ball s" "player (spawnPowerUps env s) = player s"
  "ai (spawnPowerUps env s) = ai s" "gameStatus (spawnPowerUps env s) = gameStatus s"
  "winner (spawnPowerUps env s) = winner s" "rallyCount (spawnPowerUps env s) = rallyCount s"
  "combo (spawnPowerUps env s) = combo s" "lastHitTime (spawnPowerUps env s) = lastHitTime s"
  "winScore (spawnPowerUps env s) = winScore s" "difficulty (spawnPowerUps env s) = difficulty s"
  "mode (spawnPowerUps env s) = mode s" "lastHitBy (spawnPowerUps env s) = lastHitBy s"
  "playerPowerUpTimer (spawnPowerUps env s) = playerPowerUpTimer s"
  "aiPowerUpTimer (spawnPowerUps env s) = aiPowerUpTimer s"
  "ballSlowTimer (spawnPowerUps env s) = ballSlowTimer s"
  "ballSlowFactor (spawnPowerUps env s) = ballSlowFactor s"
  "ballFastTimer (spawnPowerUps env s) = ballFastTimer s"
  "ballFastFactor (spawnPowerUps env s) = ballFastFactor s"
  "playerShrinkTimer (spawnPowerUps env s) = playerShrinkTimer s"
  "aiShrinkTimer (spawnPowerUps env s) = aiShrinkTimer s"
  "serveCountdown (spawnPowerUps env s) = serveCountdown s"
  "serveDirection (spawnPowerUps env s) = serveDirection s"
  "adaptiveAI (spawnPowerUps env s) = adaptiveAI s"
  by (simp_all add: spawnPowerUps_def Let_def)

lemma ttlStep_frame [simp]:
  "ball (ttlStep s) = ball s" "player (ttlStep s) = player s" "ai (ttlStep s) = ai s"
  "gameStatus (ttlStep s) = gameStatus s" "winner (ttlStep s) = winner s"
  "rallyCount (ttlStep s) = rallyCount s" "combo (ttlStep s) = combo s"
  "lastHitTime (ttlStep s) = lastHitTime s" "winScore (ttlStep s) = winScore s"
  "difficulty (ttlStep s) = difficulty s" "mode (ttlStep s) = mode s"
  "lastHitBy (ttlStep s) = lastHitBy s" "playerPowerUpTimer (ttlStep s) = playerPowerUpTimer s"
  "aiPowerUpTimer (ttlStep s) = aiPowerUpTimer s" "ballSlowTimer (ttlStep s) = ballSlowTimer s"
  "ballSlowFactor (ttlStep s) = ballSlowFactor s" "ballFastTimer (ttlStep s) = ballFastTimer s"
  "ballFastFactor (ttlStep s) = ballFastFactor s"
  "playerShrinkTimer (ttlStep s) = playerShrinkTimer s"
  "aiShrinkTimer (ttlStep s) = aiShrinkTimer s" "serveCountdown (ttlStep s) = serveCountdown s"
  "serveDirection (ttlStep s) = serveDirection s" "adaptiveAI (ttlStep s) = adaptiveAI s"
  by (simp_all add: ttlStep_def Let_def)

lemma playerEnlargeTimerStep_frame [simp]:
  "ball (playerEnlargeTimerStep s) = ball s"
  "pad_x (player (playerEnlargeTimerStep s)) = pad_x (player s)"
  "pad_y (player (playerEnlargeTimerStep s)) = pad_y (player s)"
  "pad_width (player (playerEnlargeTimerStep s)) = pad_width (player s)"
  "pad_speed (player (playerEnlargeTimerStep s)) = pad_speed (player s)"
  "pad_score (player (playerEnlargeTimerStep s)) = pad_score (player s)"
  "pad_dy (player (playerEnlargeTimerStep s)) = pad_dy (player s)"
  "ai (playerEnlargeTimerStep s) = ai s" "gameStatus (playerEnlargeTimerStep s) = gameStatus s"
  "winner (playerEnlargeTimerStep s) = winner s"
  "rallyCount (playerEnlargeTimerStep s) = rallyCount s"
  "combo (playerEnlargeTimerStep s) = combo s"
  "lastHitTime (playerEnlargeTimerStep s) = lastHitTime s"
  "winScore (playerEnlargeTimerStep s) = winScore s"
  "difficulty (playerEnlargeTimerStep s) = difficulty s"
  "mode (playerEnlargeTimerStep s) = mode s" "powerUps (playerEnlargeTimerStep s) = powerUps s"
  "lastHitBy (playerEnlargeTimerStep s) = lastHitBy s"
  "aiPowerUpTimer (playerEnlargeTimerStep s) = aiPowerUpTimer s"
  "ballSlowTimer (playerEnlargeTimerStep s) = ballSlowTimer s"
  "ballSlowFactor (playerEnlargeTimerStep s) = ballSlowFactor s"
  "ballFastTimer (playerEnlargeTimerStep s) = ballFastTimer s"
  "ballFastFactor (playerEnlargeTimerStep s) = ballFastFactor s"
  "playerShrinkTimer (playerEnlargeTimerStep s) = playerShrinkTimer s"
  "aiShrinkTimer (playerEnlargeTimerStep s) = aiShrinkTimer s"
  "serveCountdown (playerEnlargeTimerStep s) = serveCountdown s"
  "serveDirection (playerEnlargeTimerStep s) = serveDirection s"
  "adaptiveAI (playerEnlargeTimerStep s) = adaptiveAI s"
  by (simp_all add: playerEnlargeTimerStep_def Let_def)

lemma aiEnlargeTimerStep_frame [simp]:
  "ball (aiEnlargeTimerStep s) = ball s" "player (aiEnlargeTimerStep s) = player s"
  "pad_x (ai (aiEnlargeTimerStep s)) = pad_x (ai s)"
  "pad_y (ai (aiEnlargeTimerStep s)) = pad_y (ai s)"
  "pad_width (ai (aiEnlargeTimerStep s)) = pad_width (ai s)"
  "pad_speed (ai (aiEnlargeTimerStep s)) = pad_speed (ai s)"
  "pad_score (ai (aiEnlargeTimerStep s)) = pad_score (ai s)"
  "pad_dy (ai (aiEnlargeTimerStep s)) = pad_dy (ai s)"
  "gameStatus (aiEnlargeTimerStep s) = gameStatus s" "winner (aiEnlargeTimerStep s) = winner s"
  "rallyCount (aiEnlargeTimerStep s) = rallyCount s" "combo (aiEnlargeTimerStep s) = combo s"
  "lastHitTime (aiEnlargeTimerStep s) = lastHitTime s"
  "winScore (aiEnlargeTimerStep s) = winScore s"
  "difficulty (aiEnlargeTimerStep s) = difficulty s" "mode (aiEnlargeTimerStep s) = mode s"
  "powerUps (aiEnlargeTimerStep s) = powerUps s" "lastHitBy (aiEnlargeTimerStep s) = lastHitBy s"
  "playerPowerUpTimer (aiEnlargeTimerStep s) = playerPowerUpTimer s"
  "ballSlowTimer (aiEnlargeTimerStep s) = ballSlowTimer s"
  "ballSlowFactor (aiEnlargeTimerStep s) = ballSlowFactor s"
  "ballFastTimer (aiEnlargeTimerStep s) = ballFastTimer s"
  "ballFastFactor (aiEnlargeTimerStep s) = ballFastFactor s"
  "playerShrinkTimer (aiEnlargeTimerStep s) = playerShrinkTimer s"
  "aiShrinkTimer (aiEnlargeTimerStep s) = aiShrinkTimer s"
  "serveCountdown (aiEnlargeTimerStep s) = serveCountdown s"
  "serveDirection (aiEnlargeTimerStep s) = serveDirection s"
  "adaptiveAI (aiEnlargeTimerStep s) = adaptiveAI s"
  by (simp_all add: aiEnlargeTimerStep_def Let_def)

lemma playerShrinkTimerStep_frame [simp]:
  "ball (playerShrinkTimerStep s) = ball s"
  "pad_x (player (playerShrinkTimerStep s)) = pad_x (player s)"
  "pad_y (player (playerShrinkTimerStep s)) = pad_y (player s)"
  "pad_width (player (playerShrinkTimerStep s)) = pad_width (player s)"
  "pad_speed (player (playerShrinkTimerStep s)) = pad_speed (player s)"
  "pad_score (player (playerShrinkTimerStep s)) = pad_score (player s)"
  "pad_dy (player (playerShrinkTimerStep s)) = pad_dy (player s)"
  "ai (playerShrinkTimerStep s) = ai s" "gameStatus (playerShrinkTimerStep s) = gameStatus s"
  "winner (playerShrinkTimerStep s) = winner s"
  "rallyCount (playerShrinkTimerStep s) = rallyCount s"
  "combo (playerShrinkTimerStep s) = combo s"
  "lastHitTime (playerShrinkTimerStep s) = lastHitTime s"
  "winScore (playerShrinkTimerStep s) = winScore s"
  "difficulty (playerShrinkTimerStep s) = difficulty s" "mode (playerShrinkTimerStep s) = mode s"
  "powerUps (playerShrinkTimerStep s) = powerUps s"
  "lastHitBy (playerShrinkTimerStep s) = lastHitBy s"
  "playerPowerUpTimer (playerShrinkTimerStep s) = playerPowerUpTimer s"
  "aiPowerUpTimer (playerShrinkTimerStep s) = aiPowerUpTimer s"
  "ballSlowTimer (playerShrinkTimerStep s) = ballSlowTimer s"
  "ballSlowFactor (playerShrinkTimerStep s) = ballSlowFactor s"
  "ballFastTimer (playerShrinkTimerStep s) = ballFastTimer s"
  "ballFastFactor (playerShrinkTimerStep s) = ballFastFactor s"
  "aiShrinkTimer (playerShrinkTimerStep s) = aiShrinkTimer s"
  "serveCountdown (playerShrinkTimerStep s) = serveCountdown s"
  "serveDirection (playerShrinkTimerStep s) = serveDirection s"
  "adaptiveAI (playerShrinkTimerStep s) = adaptiveAI s"
  by (simp_all add: playerShrinkTimerStep_def Let_def)

lemma aiShrinkTimerStep_frame [simp]:
  "ball (aiShrinkTimerStep s) = ball s" "player (aiShrinkTimerStep s) = player s"
  "pad_x (ai (aiShrinkTimerStep s)) = pad_x (ai s)"
  "pad_y (ai (aiShrinkTimerStep s)) = pad_y (ai s)"
  "pad_width (ai (aiShrinkTimerStep s)) = pad_width (ai s)"
  "pad_speed (ai (aiShrinkTimerStep s)) = pad_speed (ai s)"
  "pad_score (ai (aiShrinkTimerStep s)) = pad_score (ai s)"
  "pad_dy (ai (aiShrinkTimerStep s)) = pad_dy (ai s)"
  "gameStatus (aiShrinkTimerStep s) = gameStatus s" "winner (aiShrinkTimerStep s) = winner s"
  "rallyCount (aiShrinkTimerStep s) = rallyCount s" "combo (aiShrinkTimerStep s) = combo s"
  "lastHitTime (aiShrinkTimerStep s) = lastHitTime s"
  "winScore (aiShrinkTimerStep s) = winScore s" "difficulty (aiShrinkTimerStep s) = difficulty s"
  "mode (aiShrinkTimerStep s) = mode s" "powerUps (aiShrinkTimerStep s) = powerUps s"
  "lastHitBy (aiShrinkTimerStep s) = lastHitBy s"
  "playerPowerUpTimer (aiShrinkTimerStep s) = playerPowerUpTimer s"
  "aiPowerUpTimer (aiShrinkTimerStep s) = aiPowerUpTimer s"
  "ballSlowTimer (aiShrinkTimerStep s) = ballSlowTimer s"
  "ballSlowFactor (aiShrinkTimerStep s) = ballSlowFactor s"
  "ballFastTimer (aiShrinkTimerStep s) = ballFastTimer s"
  "ballFastFactor (aiShrinkTimerStep s) = ballFastFactor s"
  "playerShrinkTimer (aiShrinkTimerStep s) = playerShrinkTimer s"
  "serveCountdown (aiShrinkTimerStep s) = serveCountdown s"
  "serveDirection (aiShrinkTimerStep s) = serveDirection s"
  "adaptiveAI (aiShrinkTimerStep s) = adaptiveAI s"
  by (simp_all add: aiShrinkTimerStep_def Let_def)

lemma slowTimerStep_frame [simp]:
  "ball_x (ball (slowTimerStep s)) = ball_x (ball s)"
  "ball_y (ball (slowTimerStep s)) = ball_y (ball s)"
  "ball_speed (ball (slowTimerStep s)) = ball_speed (ball s)"
  "ball_radius (ball (slowTimerStep s)) = ball_radius (ball s)"
  "player (slowTimerStep s) = player s" "ai (slowTimerStep s) = ai s"
  "gameStatus (slowTimerStep s) = gameStatus s" "winner (slowTimerStep s) = winner s"
  "rallyCount (slowTimerStep s) = rallyCount s" "combo (slowTimerStep s) = combo s"
  "lastHitTime (slowTimerStep s) = lastHitTime s" "winScore (slowTimerStep s) = winScore s"
  "difficulty (slowTimerStep s) = difficulty s" "mode (slowTimerStep s) = mode s"
  "powerUps (slowTimerStep s) = powerUps s" "lastHitBy (slowTimerStep s) = lastHitBy s"
  "playerPowerUpTimer (slowTimerStep s) = playerPowerUpTimer s"
  "aiPowerUpTimer (slowTimerStep s) = aiPowerUpTimer s"
  "ballFastTimer (slowTimerStep s) = ballFastTimer s"
  "ballFastFactor (slowTimerStep s) = ballFastFactor s"
  "playerShrinkTimer (slowTimerStep s) = playerShrinkTimer s"
  "aiShrinkTimer (slowTimerStep s) = aiShrinkTimer s"
  "serveCountdown (slowTimerStep s) = serveCountdown s"
  "serveDirection (slowTimerStep s) = serveDirection s"
  "adaptiveAI (slowTimerStep s) = adaptiveAI s"
  by (simp_all add: slowTimerStep_def Let_def)

lemma fastTimerStep_frame [simp]:
  "ball_x (ball (fastTimerStep s)) = ball_x (ball s)"
  "ball_y (ball (fastTimerStep s)) = ball_y (ball s)"
  "ball_speed (ball (fastTimerStep s)) = ball_speed (ball s)"
  "ball_radius (ball (fastTimerStep s)) = ball_radius (ball s)"
  "player (fastTimerStep s) = player s" "ai (fastTimerStep s) = ai s"
  "gameStatus (fastTimerStep s) = gameStatus s" "winner (fastTimerStep s) = winner s"
  "rallyCount (fastTimerStep s) = rallyCount s" "combo (fastTimerStep s) = combo s"
  "lastHitTime (fastTimerStep s) = lastHitTime s" "winScore (fastTimerStep s) = winScore s"
  "difficulty (fastTimerStep s) = difficulty s" "mode (fastTimerStep s) = mode s"
  "powerUps (fastTimerStep s) = powerUps s" "lastHitBy (fastTimerStep s) = lastHitBy s"
  "playerPowerUpTimer (fastTimerStep s) = playerPowerUpTimer s"
  "aiPowerUpTimer (fastTimerStep s) = aiPowerUpTimer s"
  "ballSlowTimer (fastTimerStep s) = ballSlowTimer s"
  "ballSlowFactor (fastTimerStep s) = ballSlowFactor s"
  "playerShrinkTimer (fastTimerStep s) = playerShrinkTimer s"
  "aiShrinkTimer (fastTimerStep s) = aiShrinkTimer s"
  "serveCountdown (fastTimerStep s) = serveCountdown s"
  "serveDirection (fastTimerStep s) = serveDirection s"
  "adaptiveAI (fastTimerStep s) = adaptiveAI s"
  by (simp_all add: fastTimerStep_def Let_def)

lemma serveCountdownStep_frame [simp]:
  "player (serveCountdownStep env s) = player s" "ai (serveCountdownStep env s) = ai s"
  "gameStatus (serveCountdownStep env s) = gameStatus s"
  "winner (serveCountdownStep env s) = winner s"
  "lastHitTime (serveCountdownStep env s) = lastHitTime s"
  "winScore (serveCountdownStep env s) = winScore s"
  "difficulty (serveCountdownStep env s) = difficulty s"
  "mode (serveCountdownStep env s) = mode s" "powerUps (serveCountdownStep env s) = powerUps s"
  "lastHitBy (serveCountdownStep env s) = lastHitBy s"
  "playerPowerUpTimer (serveCountdownStep env s) = playerPowerUpTimer s"
  "aiPowerUpTimer (serveCountdownStep env s) = aiPowerUpTimer s"
  "ballSlowTimer (serveCountdownStep env s) = ballSlowTimer s"
  "ballSlowFactor (serveCountdownStep env s) = ballSlowFactor s"
  "ballFastTimer (serveCountdownStep env s) = ballFastTimer s"
  "ballFastFactor (serveCountdownStep env s) = ballFastFactor s"
  "playerShrinkTimer (serveCountdownStep env s) = playerShrinkTimer s"
  "aiShrinkTimer (serveCountdownStep env s) = aiShrinkTimer s"
  "serveDirection (serveCountdownStep env s) = serveDirection s"
  "adaptiveAI (serveCountdownStep env s) = adaptiveAI s"
  by (simp_all add: serveCountdownStep_def resetBall_def Let_def)

lemma moveBall_frame [simp]:
  "ball_vx (ball (moveBall s)) = ball_vx (ball s)"
  "ball_vy (ball (moveBall s)) = ball_vy (ball s)"
  "ball_speed (ball (moveBall s)) = ball_speed (ball s)"
  "ball_radius (ball (moveBall s)) = ball_radius (ball s)" "player (moveBall s) = player s"
  "ai (moveBall s) = ai s" "gameStatus (moveBall s) = gameStatus s"
  "winner (moveBall s) = winner s" "rallyCount (moveBall s) = rallyCount s"
  "combo (moveBall s) = combo s" "lastHitTime (moveBall s) = lastHitTime s"
  "winScore (moveBall s) = winScore s" "difficulty (moveBall s) = difficulty s"
  "mode (moveBall s) = mode s" "powerUps (moveBall s) = powerUps s"
  "lastHitBy (moveBall s) = lastHitBy s" "playerPowerUpTimer (moveBall s) = playerPowerUpTimer s"
  "aiPowerUpTimer (moveBall s) = aiPowerUpTimer s" "ballSlowTimer (moveBall s) = ballSlowTimer s"
  "ballSlowFactor (moveBall s) = ballSlowFactor s" "ballFastTimer (moveBall s) = ballFastTimer s"
  "ballFastFactor (moveBall s) = ballFastFactor s"
  "playerShrinkTimer (moveBall s) = playerShrinkTimer s"
  "aiShrinkTimer (moveBall s) = aiShrinkTimer s" "serveCountdown (moveBall s) = serveCountdown s"
  "serveDirection (moveBall s) = serveDirection s" "adaptiveAI (moveBall s) = adaptiveAI s"
  by (simp_all add: moveBall_def Let_def)

lemma wallCollision_frame [simp]:
  "ball_x (ball (wallCollision s)) = ball_x (ball s)"
  "ball_vx (ball (wallCollision s)) = ball_vx (ball s)"
  "ball_speed (ball (wallCollision s)) = ball_speed (ball s)"
  "ball_radius (ball (wallCollision s)) = ball_radius (ball s)"
  "player (wallCollision s) = player s" "ai (wallCollision s) = ai s"
  "gameStatus (wallCollision s) = gameStatus s" "winner (wallCollision s) = winner s"
  "rallyCount (wallCollision s) = rallyCount s" "combo (wallCollision s) = combo s"
  "lastHitTime (wallCollision s) = lastHitTime s" "winScore (wallCollision s) = winScore s"
  "difficulty (wallCollision s) = difficulty s" "mode (wallCollision s) = mode s"
  "powerUps (wallCollision s) = powerUps s" "lastHitBy (wallCollision s) = lastHitBy s"
  "playerPowerUpTimer (wallCollision s) = playerPowerUpTimer s"
  "aiPowerUpTimer (wallCollision s) = aiPowerUpTimer s"
  "ballSlowTimer (wallCollision s) = ballSlowTimer s"
  "ballSlowFactor (wallCollision s) = ballSlowFactor s"
  "ballFastTimer (wallCollision s) = ballFastTimer s"
  "ballFastFactor (wallCollision s) = ballFastFactor s"
  "playerShrinkTimer (wallCollision s) = playerShrinkTimer s"
  "aiShrinkTimer (wallCollision s) = aiShrinkTimer s"
  "serveCountdown (wallCollision s) = serveCountdown s"
  "serveDirection (wallCollision s) = serveDirection s"
  "adaptiveAI (wallCollision s) = adaptiveAI s"
  by (simp_all add: wallCollision_def Let_def)

lemma escalateSpeed_frame [simp]:
  "ball_x (ball (escalateSpeed st s)) = ball_x (ball s)"
  "ball_y (ball (escalateSpeed st s)) = ball_y (ball s)"
  "ball_vx (ball (escalateSpeed st s)) = ball_vx (ball s)"
  "ball_vy (ball (escalateSpeed st s)) = ball_vy (ball s)"
  "ball_radius (ball (escalateSpeed st s)) = ball_radius (ball s)"
  "player (escalateSpeed st s) = player s" "ai (escalateSpeed st s) = ai s"
  "gameStatus (escalateSpeed st s) = gameStatus s" "winner (escalateSpeed st s) = winner s"
  "rallyCount (escalateSpeed st s) = rallyCount s" "combo (escalateSpeed st s) = combo s"
  "lastHitTime (escalateSpeed st s) = lastHitTime s" "winScore (escalateSpeed st s) = winScore s"
  "difficulty (escalateSpeed st s) = difficulty s" "mode (escalateSpeed st s) = mode s"
  "powerUps (escalateSpeed st s) = powerUps s" "lastHitBy (escalateSpeed st s) = lastHitBy s"
  "playerPowerUpTimer (escalateSpeed st s) = playerPowerUpTimer s"
  "aiPowerUpTimer (escalateSpeed st s) = aiPowerUpTimer s"
  "ballSlowTimer (escalateSpeed st s) = ballSlowTimer s"
  "ballSlowFactor (escalateSpeed st s) = ballSlowFactor s"
  "ballFastTimer (escalateSpeed st s) = ballFastTimer s"
  "ballFastFactor (escalateSpeed st s) = ballFastFactor s"
  "playerShrinkTimer (escalateSpeed st s) = playerShrinkTimer s"
  "aiShrinkTimer (escalateSpeed st s) = aiShrinkTimer s"
  "serveCountdown (escalateSpeed st s) = serveCountdown s"
  "serveDirection (escalateSpeed st s) = serveDirection s"
  "adaptiveAI (escalateSpeed st s) = adaptiveAI s"
  by (simp_all add: escalateSpeed_def Let_def)

lemma powerHit_frame [simp]:
  "ball_x (ball (powerHit st paddle s)) = ball_x (ball s)"
  "ball_y (ball (powerHit st paddle s)) = ball_y (ball s)"
  "ball_vx (ball (powerHit st paddle s)) = ball_vx (ball s)"
  "ball_vy (ball (powerHit st paddle s)) = ball_vy (ball s)"
  "ball_radius (ball (powerHit st paddle s)) = ball_radius (ball s)"
  "player (powerHit st paddle s) = player s" "ai (powerHit st paddle s) = ai s"
  "gameStatus (powerHit st paddle s) = gameStatus s" "winner (powerHit st paddle s) = winner s"
  "rallyCount (powerHit st paddle s) = rallyCount s" "combo (powerHit st paddle s) = combo s"
  "lastHitTime (powerHit st paddle s) = lastHitTime s"
  "winScore (powerHit st paddle s) = winScore s"
  "difficulty (powerHit st paddle s) = difficulty s" "mode (powerHit st paddle s) = mode s"
  "powerUps (powerHit st paddle s) = powerUps s" "lastHitBy (powerHit st paddle s) = lastHitBy s"
  "playerPowerUpTimer (powerHit st paddle s) = playerPowerUpTimer s"
  "aiPowerUpTimer (powerHit st paddle s) = aiPowerUpTimer s"
  "ballSlowTimer (powerHit st paddle s) = ballSlowTimer s"
  "ballSlowFactor (powerHit st paddle s) = ballSlowFactor s"
  "ballFastTimer (powerHit st paddle s) = ballFastTimer s"
  "ballFastFactor (powerHit st paddle s) = ballFastFactor s"
  "playerShrinkTimer (powerHit st paddle s) = playerShrinkTimer s"
  "aiShrinkTimer (powerHit st paddle s) = aiShrinkTimer s"
  "serveCountdown (powerHit st paddle s) = serveCountdown s"
  "serveDirection (powerHit st paddle s) = serveDirection s"
  "adaptiveAI (powerHit st paddle s) = adaptiveAI s"
  by (simp_all add: powerHit_def Let_def)

lemma deflect_frame [simp]:
  "ball_y (ball (deflect angle spd paddle isPlayer s)) = ball_y (ball s)"
  "ball_speed (ball (deflect angle spd paddle isPlayer s)) = ball_speed (ball s)"
  "ball_radius (ball (deflect angle spd paddle isPlayer s)) = ball_radius (ball s)"
  "player (deflect angle spd paddle isPlayer s) = player s"
  "ai (deflect angle spd paddle isPlayer s) = ai s"
  "gameStatus (deflect angle spd paddle isPlayer s) = gameStatus s"
  "winner (deflect angle spd paddle isPlayer s) = winner s"
  "rallyCount (deflect angle spd paddle isPlayer s) = rallyCount s"
  "combo (deflect angle spd paddle isPlayer s) = combo s"
  "lastHitTime (deflect angle spd paddle isPlayer s) = lastHitTime s"
  "winScore (deflect angle spd paddle isPlayer s) = winScore s"
  "difficulty (deflect angle spd paddle isPlayer s) = difficulty s"
  "mode (deflect angle spd paddle isPlayer s) = mode s"
  "powerUps (deflect angle spd paddle isPlayer s) = powerUps s"
  "lastHitBy (deflect angle spd paddle isPlayer s) = lastHitBy s"
  "playerPowerUpTimer (deflect angle spd paddle isPlayer s) = playerPowerUpTimer s"
  "aiPowerUpTimer (deflect angle spd paddle isPlayer s) = aiPowerUpTimer s"
  "ballSlowTimer (deflect angle spd paddle isPlayer s) = ballSlowTimer s"
  "ballSlowFactor (deflect angle spd paddle isPlayer s) = ballSlowFactor s"
  "ballFastTimer (deflect angle spd paddle isPlayer s) = ballFastTimer s"
  "ballFastFactor (deflect angle spd paddle isPlayer s) = ballFastFactor s"
  "playerShrinkTimer (deflect angle spd paddle isPlayer s) = playerShrinkTimer s"
  "aiShrinkTimer (deflect angle spd paddle isPlayer s) = aiShrinkTimer s"
  "serveCountdown (deflect angle spd paddle isPlayer s) = serveCountdown s"
  "serveDirection (deflect angle spd paddle isPlayer s) = serveDirection s"
  "adaptiveAI (deflect angle spd paddle isPlayer s) = adaptiveAI s"
  by (simp_all add: deflect_def Let_def)

lemma trackRally_frame [simp]:
  "ball (trackRally s) = ball s" "player (trackRally s) = player s" "ai (trackRally s) = ai s"
  "gameStatus (trackRally s) = gameStatus s" "winner (trackRally s) = winner s"
  "combo (trackRally s) = combo s" "lastHitTime (trackRally s) = lastHitTime s"
  "winScore (trackRally s) = winScore s" "difficulty (trackRally s) = difficulty s"
  "mode (trackRally s) = mode s" "powerUps (trackRally s) = powerUps s"
  "lastHitBy (trackRally s) = lastHitBy s"
  "playerPowerUpTimer (trackRally s) = playerPowerUpTimer s"
  "aiPowerUpTimer (trackRally s) = aiPowerUpTimer s"
  "ballSlowTimer (trackRally s) = ballSlowTimer s"
  "ballSlowFactor (trackRally s) = ballSlowFactor s"
  "ballFastTimer (trackRally s) = ballFastTimer s"
  "ballFastFactor (trackRally s) = ballFastFactor s"
  "playerShrinkTimer (trackRally s) = playerShrinkTimer s"
  "aiShrinkTimer (trackRally s) = aiShrinkTimer s"
  "serveCountdown (trackRally s) = serveCountdown s"
  "serveDirection (trackRally s) = serveDirection s" "adaptiveAI (trackRally s) = adaptiveAI s"
  by (simp_all add: trackRally_def Let_def)

lemma trackCombo_frame [simp]:
  "ball (trackCombo env isPlayer s) = ball s" "player (trackCombo env isPlayer s) = player s"
  "ai (trackCombo env isPlayer s) = ai s" "gameStatus (trackCombo env isPlayer s) = gameStatus s"
  "winner (trackCombo env isPlayer s) = winner s"
  "rallyCount (trackCombo env isPlayer s) = rallyCount s"
  "winScore (trackCombo env isPlayer s) = winScore s"
  "difficulty (trackCombo env isPlayer s) = difficulty s"
  "mode (trackCombo env isPlayer s) = mode s" "powerUps (trackCombo env isPlayer s) = powerUps s"
  "playerPowerUpTimer (trackCombo env isPlayer s) = playerPowerUpTimer s"
  "aiPowerUpTimer (trackCombo env isPlayer s) = aiPowerUpTimer s"
  "ballSlowTimer (trackCombo env isPlayer s) = ballSlowTimer s"
  "ballSlowFactor (trackCombo env isPlayer s) = ballSlowFactor s"
  "ballFastTimer (trackCombo env isPlayer s) = ballFastTimer s"
  "ballFastFactor (trackCombo env isPlayer s) = ballFastFactor s"
  "playerShrinkTimer (trackCombo env isPlayer s) = playerShrinkTimer s"
  "aiShrinkTimer (trackCombo env isPlayer s) = aiShrinkTimer s"
  "serveCountdown (trackCombo env isPlayer s) = serveCountdown s"
  "serveDirection (trackCombo env isPlayer s) = serveDirection s"
  "adaptiveAI (trackCombo env isPlayer s) = adaptiveAI s"
  by (simp_all add: trackCombo_def Let_def)

lemma checkPaddleCollision_frame [simp]:
  "ball_y (ball (checkPaddleCollision env paddle isPlayer s)) = ball_y (ball s)"
  "ball_radius (ball (checkPaddleCollision env paddle isPlayer s)) = ball_radius (ball s)"
  "player (checkPaddleCollision env paddle isPlayer s) = player s"
  "ai (checkPaddleCollision env paddle isPlayer s) = ai s"
  "gameStatus (checkPaddleCollision env paddle isPlayer s) = gameStatus s"
  "winner (checkPaddleCollision env paddle isPlayer s) = winner s"
  "winScore (checkPaddleCollision env paddle isPlayer s) = winScore s"
  "difficulty (checkPaddleCollision env paddle isPlayer s) = difficulty s"
  "mode (checkPaddleCollision env paddle isPlayer s) = mode s"
  "powerUps (checkPaddleCollision env paddle isPlayer s) = powerUps s"
  "playerPowerUpTimer (checkPaddleCollision env paddle isPlayer s) = playerPowerUpTimer s"
  "aiPowerUpTimer (checkPaddleCollision env paddle isPlayer s) = aiPowerUpTimer s"
  "ballSlowTimer (checkPaddleCollision env paddle isPlayer s) = ballSlowTimer s"
  "ballSlowFactor (checkPaddleCollision env paddle isPlayer s) = ballSlowFactor s"
  "ballFastTimer (checkPaddleCollision env paddle isPlayer s) = ballFastTimer s"
  "ballFastFactor (checkPaddleCollision env paddle isPlayer s) = ballFastFactor s"
  "playerShrinkTimer (checkPaddleCollision env paddle isPlayer s) = playerShrinkTimer s"
  "aiShrinkTimer (checkPaddleCollision env paddle isPlayer s) = aiShrinkTimer s"
  "serveCountdown (checkPaddleCollision env paddle isPlayer s) = serveCountdown s"
  "serveDirection (checkPaddleCollision env paddle isPlayer s) = serveDirection s"
  "adaptiveAI (checkPaddleCollision env paddle isPlayer s) = adaptiveAI s"
  by (simp_all add: checkPaddleCollision_def Let_def)

lemma applyPowerUp_frame [simp]:
  "ball_x (ball (applyPowerUp pu s)) = ball_x (ball s)"
  "ball_y (ball (applyPowerUp pu s)) = ball_y (ball s)"
  "ball_speed (ball (applyPowerUp pu s)) = ball_speed (ball s)"
  "ball_radius (ball (applyPowerUp pu s)) = ball_radius (ball s)"
  "pad_x (player (applyPowerUp pu s)) = pad_x (player s)"
  "pad_y (player (applyPowerUp pu s)) = pad_y (player s)"
  "pad_width (player (applyPowerUp pu s)) = pad_width (player s)"
  "pad_speed (player (applyPowerUp pu s)) = pad_speed (player s)"
  "pad_score (player (applyPowerUp pu s)) = pad_score (player s)"
  "pad_dy (player (applyPowerUp pu s)) = pad_dy (player s)"
  "pad_x (ai (applyPowerUp pu s)) = pad_x (ai s)" "pad_y (ai (applyPowerUp pu s)) = pad_y (ai s)"
  "pad_width (ai (applyPowerUp pu s)) = pad_width (ai s)"
  "pad_speed (ai (applyPowerUp pu s)) = pad_speed (ai s)"
  "pad_score (ai (applyPowerUp pu s)) = pad_score (ai s)"
  "pad_dy (ai (applyPowerUp pu s)) = pad_dy (ai s)"
  "gameStatus (applyPowerUp pu s) = gameStatus s" "winner (applyPowerUp pu s) = winner s"
  "rallyCount (applyPowerUp pu s) = rallyCount s" "combo (applyPowerUp pu s) = combo s"
  "lastHitTime (applyPowerUp pu s) = lastHitTime s" "winScore (applyPowerUp pu s) = winScore s"
  "difficulty (applyPowerUp pu s) = difficulty s" "mode (applyPowerUp pu s) = mode s"
  "powerUps (applyPowerUp pu s) = powerUps s" "lastHitBy (applyPowerUp pu s) = lastHitBy s"
  "serveCountdown (applyPowerUp pu s) = serveCountdown s"
  "serveDirection (applyPowerUp pu s) = serveDirection s"
  "adaptiveAI (applyPowerUp pu s) = adaptiveAI s"
  by (simp_all add: applyPowerUp_def Let_def split: PowerUpType.splits)

lemma effectTimerSteps_frame [simp]:
  "ball_x (ball (effectTimerSteps s)) = ball_x (ball s)"
  "ball_y (ball (effectTimerSteps s)) = ball_y (ball s)"
  "ball_speed (ball (effectTimerSteps s)) = ball_speed (ball s)"
  "ball_radius (ball (effectTimerSteps s)) = ball_radius (ball s)"
  "pad_x (player (effectTimerSteps s)) = pad_x (player s)"
  "pad_y (player (effectTimerSteps s)) = pad_y (player s)"
  "pad_width (player (effectTimerSteps s)) = pad_width (player s)"
  "pad_speed (player (effectTimerSteps s)) = pad_speed (player s)"
  "pad_score (player (effectTimerSteps s)) = pad_score (player s)"
  "pad_dy (player (effectTimerSteps s)) = pad_dy (player s)"
  "pad_x (ai (effectTimerSteps s)) = pad_x (ai s)"
  "pad_y (ai (effectTimerSteps s)) = pad_y (ai s)"
  "pad_width (ai (effectTimerSteps s)) = pad_width (ai s)"
  "pad_speed (ai (effectTimerSteps s)) = pad_speed (ai s)"
  "pad_score (ai (effectTimerSteps s)) = pad_score (ai s)"
  "pad_dy (ai (effectTimerSteps s)) = pad_dy (ai s)"
  "gameStatus (effectTimerSteps s) = gameStatus s" "winner (effectTimerSteps s) = winner s"
  "rallyCount (effectTimerSteps s) = rallyCount s" "combo (effectTimerSteps s) = combo s"
  "lastHitTime (effectTimerSteps s) = lastHitTime s" "winScore (effectTimerSteps s) = winScore s"
  "difficulty (effectTimerSteps s) = difficulty s" "mode (effectTimerSteps s) = mode s"
  "powerUps (effectTimerSteps s) = powerUps s" "lastHitBy (effectTimerSteps s) = lastHitBy s"
  "serveCountdown (effectTimerSteps s) = serveCountdown s"
  "serveDirection (effectTimerSteps s) = serveDirection s"
  "adaptiveAI (effectTimerSteps s) = adaptiveAI s"
  by (simp_all add: effectTimerSteps_def)

lemma beforeServe_frame [simp]:
  "ball_x (ball (beforeServe env s)) = ball_x (ball s)"
  "ball_y (ball (beforeServe env s)) = ball_y (ball s)"
  "ball_speed (ball (beforeServe env s)) = ball_speed (ball s)"
  "ball_radius (ball (beforeServe env s)) = ball_radius (ball s)"
  "pad_x (player (beforeServe env s)) = pad_x (player s)"
  "pad_width (player (beforeServe env s)) = pad_width (player s)"
  "pad_speed (player (beforeServe env s)) = pad_speed (player s)"
  "pad_score (player (beforeServe env s)) = pad_score (player s)"
  "pad_x (ai (beforeServe env s)) = pad_x (ai s)"
  "pad_width (ai (beforeServe env s)) = pad_width (ai s)"
  "pad_score (ai (beforeServe env s)) = pad_score (ai s)"
  "gameStatus (beforeServe env s) = gameStatus s" "winner (beforeServe env s) = winner s"
  "rallyCount (beforeServe env s) = rallyCount s" "combo (beforeServe env s) = combo s"
  "lastHitTime (beforeServe env s) = lastHitTime s" "winScore (beforeServe env s) = winScore s"
  "difficulty (beforeServe env s) = difficulty s" "mode (beforeServe env s) = mode s"
  "lastHitBy (beforeServe env s) = lastHitBy s"
  "serveCountdown (beforeServe env s) = serveCountdown s"
  "serveDirection (beforeServe env s) = serveDirection s"
  "adaptiveAI (beforeServe env s) = adaptiveAI s"
  by (simp_all add: beforeServe_def)

lemma paddleCollisions_frame [simp]:
  "ball_y (ball (paddleCollisions env s)) = ball_y (ball s)"
  "ball_radius (ball (paddleCollisions env s)) = ball_radius (ball s)"
  "player (paddleCollisions env s) = player s" "ai (paddleCollisions env s) = ai s"
  "gameStatus (paddleCollisions env s) = gameStatus s"
  "winner (paddleCollisions env s) = winner s" "winScore (paddleCollisions env s) = winScore s"
  "difficulty (paddleCollisions env s) = difficulty s" "mode (paddleCollisions env s) = mode s"
  "powerUps (paddleCollisions env s) = powerUps s"
  "playerPowerUpTimer (paddleCollisions env s) = playerPowerUpTimer s"
  "aiPowerUpTimer (paddleCollisions env s) = aiPowerUpTimer s"
  "ballSlowTimer (paddleCollisions env s) = ballSlowTimer s"
  "ballSlowFactor (paddleCollisions env s) = ballSlowFactor s"
  "ballFastTimer (paddleCollisions env s) = ballFastTimer s"
  "ballFastFactor (paddleCollisions env s) = ballFastFactor s"
  "playerShrinkTimer (paddleCollisions env s) = playerShrinkTimer s"
  "aiShrinkTimer (paddleCollisions env s) = aiShrinkTimer s"
  "serveCountdown (paddleCollisions env s) = serveCountdown s"
  "serveDirection (paddleCollisions env s) = serveDirection s"
  "adaptiveAI (paddleCollisions env s) = adaptiveAI s"
  by (simp_all add: paddleCollisions_def)

lemma rallyPhysics_frame [simp]:
  "ball_radius (ball (rallyPhysics env s)) = ball_radius (ball s)"
  "player (rallyPhysics env s) = player s" "ai (rallyPhysics env s) = ai s"
  "gameStatus (rallyPhysics env s) = gameStatus s" "winner (rallyPhysics env s) = winner s"
  "winScore (rallyPhysics env s) = winScore s" "difficulty (rallyPhysics env s) = difficulty s"
  "mode (rallyPhysics env s) = mode s" "powerUps (rallyPhysics env s) = powerUps s"
  "playerPowerUpTimer (rallyPhysics env s) = playerPowerUpTimer s"
  "aiPowerUpTimer (rallyPhysics env s) = aiPowerUpTimer s"
  "ballSlowTimer (rallyPhysics env s) = ballSlowTimer s"
  "ballSlowFactor (rallyPhysics env s) = ballSlowFactor s"
  "ballFastTimer (rallyPhysics env s) = ballFastTimer s"
  "ballFastFactor (rallyPhysics env s) = ballFastFactor s"
  "playerShrinkTimer (rallyPhysics env s) = playerShrinkTimer s"
  "aiShrinkTimer (rallyPhysics env s) = aiShrinkTimer s"
  "serveCountdown (rallyPhysics env s) = serveCountdown s"
  "serveDirection (rallyPhysics env s) = serveDirection s"
  "adaptiveAI (rallyPhysics env s) = adaptiveAI s"
  by (simp_all add: rallyPhysics_def)

text \<open>The pickup pass applies \<open>applyPowerUp\<close> some number of times and nothing else.\<close>

lemma collectPowerUps_preserves:
  assumes "\<And>pu s. P (applyPowerUp pu s) = P s"
  shows "P (snd (collectPowerUps pus s)) = P s"
  by (induction pus arbitrary: s) (simp_all add: split_beta assms)

lemma collectPowerUps_invariant:
  assumes "\<And>pu s. Q s \<Longrightarrow> Q (applyPowerUp pu s)" and "Q s"
  shows "Q (snd (collectPowerUps pus s))"
  using assms(2) by (induction pus arbitrary: s) (simp_all add: split_beta assms(1))

lemma collectPowerUps_frame [simp]:
  "ball_x (ball (snd (collectPowerUps pus s))) = ball_x (ball s)"
  "ball_y (ball (snd (collectPowerUps pus s))) = ball_y (ball s)"
  "ball_speed (ball (snd (collectPowerUps pus s))) = ball_speed (ball s)"
  "ball_radius (ball (snd (collectPowerUps pus s))) = ball_radius (ball s)"
  "pad_x (player (snd (collectPowerUps pus s))) = pad_x (player s)"
  "pad_y (player (snd (collectPowerUps pus s))) = pad_y (player s)"
  "pad_width (player (snd (collectPowerUps pus s))) = pad_width (player s)"
  "pad_speed (player (snd (collectPowerUps pus s))) = pad_speed (player s)"
  "pad_score (player (snd (collectPowerUps pus s))) = pad_score (player s)"
  "pad_dy (player (snd (collectPowerUps pus s))) = pad_dy (player s)"
  "pad_x (ai (snd (collectPowerUps pus s))) = pad_x (ai s)"
  "pad_y (ai (snd (collectPowerUps pus s))) = pad_y (ai s)"
  "pad_width (ai (snd (collectPowerUps pus s))) = pad_width (ai s)"
  "pad_speed (ai (snd (collectPowerUps pus s))) = pad_speed (ai s)"
  "pad_score (ai (snd (collectPowerUps pus s))) = pad_score (ai s)"
  "pad_dy (ai (snd (collectPowerUps pus s))) = pad_dy (ai s)"
  "gameStatus (snd (collectPowerUps pus s)) = gameStatus s"
  "winner (snd (collectPowerUps pus s)) = winner s"
  "rallyCount (snd (collectPowerUps pus s)) = rallyCount s"
  "combo (snd (collectPowerUps pus s)) = combo s"
  "lastHitTime (snd (collectPowerUps pus s)) = lastHitTime s"
  "winScore (snd (collectPowerUps pus s)) = winScore s"
  "difficulty (snd (collectPowerUps pus s)) = difficulty s"
  "mode (snd (collectPowerUps pus s)) = mode s"
  "lastHitBy (snd (collectPowerUps pus s)) = lastHitBy s"
  "serveCountdown (snd (collectPowerUps pus s)) = serveCountdown s"
  "serveDirection (snd (collectPowerUps pus s)) = serveDirection s"
  "adaptiveAI (snd (collectPowerUps pus s)) = adaptiveAI s"
  by (rule collectPowerUps_preserves [where P = "\<lambda>s. _ s"]; simp)+

lemma powerUpPickup_frame [simp]:
  "ball_x (ball (powerUpPickup s)) = ball_x (ball s)"
  "ball_y (ball (powerUpPickup s)) = ball_y (ball s)"
  "ball_speed (ball (powerUpPickup s)) = ball_speed (ball s)"
  "ball_radius (ball (powerUpPickup s)) = ball_radius (ball s)"
  "pad_x (player (powerUpPickup s)) = pad_x (player s)"
  "pad_y (player (powerUpPickup s)) = pad_y (player s)"
  "pad_width (player (powerUpPickup s)) = pad_width (player s)"
  "pad_speed (player (powerUpPickup s)) = pad_speed (player s)"
  "pad_score (player (powerUpPickup s)) = pad_score (player s)"
  "pad_dy (player (powerUpPickup s)) = pad_dy (player s)"
  "pad_x (ai (powerUpPickup s)) = pad_x (ai s)" "pad_y (ai (powerUpPickup s)) = pad_y (ai s)"
  "pad_width (ai (powerUpPickup s)) = pad_width (ai s)"
  "pad_speed (ai (powerUpPickup s)) = pad_speed (ai s)"
  "pad_score (ai (powerUpPickup s)) = pad_score (ai s)"
  "pad_dy (ai (powerUpPickup s)) = pad_dy (ai s)" "gameStatus (powerUpPickup s) = gameStatus s"
  "winner (powerUpPickup s) = winner s" "rallyCount (powerUpPickup s) = rallyCount s"
  "combo (powerUpPickup s) = combo s" "lastHitTime (powerUpPickup s) = lastHitTime s"
  "winScore (powerUpPickup s) = winScore s" "difficulty (powerUpPickup s) = difficulty s"
  "mode (powerUpPickup s) = mode s" "lastHitBy (powerUpPickup s) = lastHitBy s"
  "serveCountdown (powerUpPickup s) = serveCountdown s"
  "serveDirection (powerUpPickup s) = serveDirection s"
  "adaptiveAI (powerUpPickup s) = adaptiveAI s"
  by (simp_all add: powerUpPickup_def split_beta)


section \<open>Properties of the engine\<close>

subsection \<open>Ticks outside a running match\<close>

text \<open>
  Claim C3. In every tick in which \<open>gameStatus\<close> is not \<open>playing\<close> (that is \<open>menu\<close>,
  \<open>paused\<close> or \<open>gameOver\<close>), \<open>update\<close> returns the state it was given: the ball, both
  paddles and both scores, like every other field, are unchanged.
\<close>

theorem update_not_playing_noop:
  assumes "gameStatus s \<noteq> Playing"
  shows "update env s = s
    \<and> ball_x (ball (update env s)) = ball_x (ball s)
    \<and> ball_y (ball (update env s)) = ball_y (ball s)
    \<and> pad_y (player (update env s)) = pad_y (player s)
    \<and> pad_y (ai (update env s)) = pad_y (ai s)
    \<and> pad_score (player (update env s)) = pad_score (player s)
    \<and> pad_score (ai (update env s)) = pad_score (ai s)"
  using assms by (simp add: update_def)

theorem update_not_playing_noop_witness:
  "gameStatus initialState \<noteq> Playing \<and> update idleEnv initialState = initialState
    \<and> gameStatus (togglePause (startGame
          \<lparr>argDifficulty = Hard, argWinAt = 7, argMode = Single, argAdaptiveAI = True,
           argPowerUpsEnabled = True, argPowerUpSpawnRate = RateNormal, argRndServe = 3 / 4,
           argNow = 5000\<rparr> initialState)) = Paused"
  using update_not_playing_noop [of initialState idleEnv]
  by (simp add: initialState_def togglePause_def startGame_def prepareServe_def Let_def)

subsection \<open>Adaptive AI speed\<close>

lemma clamp_if:
  fixes t0 mn mx :: real
  assumes "mn \<le> mx"
  shows "(if (if t0 < mn then mn else t0) > mx then mx else (if t0 < mn then mn else t0))
           = max mn (min mx t0)"
  using assms by (auto simp: max_def min_def)

lemma adaptiveAIStep_speed:
  assumes "mode s = Single"
  shows "pad_speed (ai (adaptiveAIStep s)) =
    (let base = aiSpeed (DIFFICULTY_SETTINGS (difficulty s)) in
     if adaptiveAI s
     then max (0.6 * base) (min (2.0 * base)
            (base + 0.45 * real_of_int (pad_score (player s) - pad_score (ai s))))
     else base)"
proof -
  define base where "base = aiSpeed (DIFFICULTY_SETTINGS (difficulty s))"
  define t0 where "t0 = base + real_of_int (pad_score (player s) - pad_score (ai s)) * 0.45"
  have pos: "0 < base" unfolding base_def by (cases "difficulty s") simp_all
  then have le: "base * 0.6 \<le> base * 2.0" by simp
  have "pad_speed (ai (adaptiveAIStep s)) =
      (if adaptiveAI s
       then (if (if t0 < base * 0.6 then base * 0.6 else t0) > base * 2.0 then base * 2.0
             else (if t0 < base * 0.6 then base * 0.6 else t0))
       else base)"
    using assms unfolding adaptiveAIStep_def Let_def base_def t0_def by simp
  also have "\<dots> = (if adaptiveAI s then max (base * 0.6) (min (base * 2.0) t0) else base)"
    using clamp_if [OF le, of t0] by simp
  also have "\<dots> = (if adaptiveAI s then max (0.6 * base) (min (2.0 * base)
            (base + 0.45 * real_of_int (pad_score (player s) - pad_score (ai s)))) else base)"
    unfolding t0_def by (simp only: mult.commute)
  finally show ?thesis unfolding base_def Let_def .
qed

lemma pad_speed_ai_scoring [simp]: "pad_speed (ai (scoring env s)) = pad_speed (ai s)"
  by (simp add: scoring_def scoreLeft_def scoreRight_def prepareServe_def Let_def)

lemma pad_speed_ai_collect [simp]:
  "pad_speed (ai (snd (collectPowerUps pus s))) = pad_speed (ai s)"
  by (induction pus arbitrary: s) (simp_all add: split_beta)

lemma pad_speed_ai_pickup [simp]: "pad_speed (ai (powerUpPickup s)) = pad_speed (ai s)"
  by (simp add: powerUpPickup_def split_beta)

lemma pad_speed_ai_beforeServe:
  "pad_speed (ai (beforeServe env s)) = pad_speed (ai (adaptiveAIStep s))"
  by (simp add: beforeServe_def effectTimerSteps_def)

text \<open>
  Claim C8. In single-player mode every tick of a running match sets the AI paddle's
  speed from the scores the tick starts with: with the adaptive flag on, to
  \<open>base + 0.45 \<times> (playerScore - aiScore)\<close> clamped to \<open>[0.6 \<times> base, 2.0 \<times> base]\<close>, where
  \<open>base\<close> is the \<open>aiSpeed\<close> of the difficulty table; with the flag off, to \<open>base\<close>.
\<close>

theorem adaptive_ai_speed:
  assumes "gameStatus s = Playing" and "mode s = Single"
  shows "pad_speed (ai (update env s)) =
    (let base = aiSpeed (DIFFICULTY_SETTINGS (difficulty s)) in
     if adaptiveAI s
     then max (0.6 * base) (min (2.0 * base)
            (base + 0.45 * real_of_int (pad_score (player s) - pad_score (ai s))))
     else base)"
proof -
  have "pad_speed (ai (update env s)) = pad_speed (ai (adaptiveAIStep s))"
    using assms(1) by (simp add: update_def Let_def pad_speed_ai_beforeServe)
  then show ?thesis using adaptiveAIStep_speed [OF assms(2)] by simp
qed

theorem adaptive_ai_speed_witness:
  "gameStatus adaptiveState = Playing \<and> mode adaptiveState = Single
    \<and> pad_speed (ai (update idleEnv adaptiveState)) = 78 / 10
    \<and> gameStatus trailingState = Playing \<and> mode trailingState = Single
    \<and> pad_speed (ai (update idleEnv trailingState)) = 36 / 10"
  using adaptive_ai_speed [of adaptiveState idleEnv] adaptive_ai_speed [of trailingState idleEnv]
  by (simp add: adaptiveState_def trailingState_def initialState_def initialPlayer_def
      initialAi_def)


subsection \<open>Ball speed at a paddle collision\<close>

lemma ballSpeedMul_pos: "0 < ballSpeedMul (DIFFICULTY_SETTINGS d)"
  by (cases d) simp_all

lemma checkPaddleCollision_speed:
  assumes "paddleOverlap (ball s) paddle"
  shows "ball_speed (ball (checkPaddleCollision env paddle isPlayer s)) =
     (if \<bar>pad_dy paddle\<bar> > 4
      then min (min (ball_speed (ball s) * 1.05)
                  (14 * ballSpeedMul (DIFFICULTY_SETTINGS (difficulty s))) * 1.2)
             (16 * ballSpeedMul (DIFFICULTY_SETTINGS (difficulty s)))
      else min (ball_speed (ball s) * 1.05)
             (14 * ballSpeedMul (DIFFICULTY_SETTINGS (difficulty s))))"
  using assms
  by (simp add: checkPaddleCollision_def Let_def deflect_def powerHit_def escalateSpeed_def)

text \<open>
  Claim C1, as the code has it. On every paddle collision a normal hit sets
  \<open>speed = min(speed \<times> 1.05, 14 \<times> ballSpeedMul)\<close> and a power hit (the paddle's absolute
  per-tick displacement above 4) then sets \<open>speed = min(speed \<times> 1.2, 16 \<times> ballSpeedMul)\<close>.
  The result is at most \<open>16 \<times> ballSpeedMul\<close>. It is at least the speed before the
  collision when that speed is at most \<open>14 \<times> ballSpeedMul\<close>, and on a power hit when it
  is at most \<open>16 \<times> ballSpeedMul\<close>; a normal hit on a ball that an earlier power hit took
  above \<open>14 \<times> ballSpeedMul\<close> brings the speed back down to that cap.
\<close>

theorem paddle_hit_speed:
  assumes "paddleOverlap (ball s) paddle" and "0 \<le> ball_speed (ball s)"
  shows "ball_speed (ball (checkPaddleCollision env paddle isPlayer s)) =
           (if \<bar>pad_dy paddle\<bar> > 4
            then min (min (ball_speed (ball s) * 1.05)
                        (14 * ballSpeedMul (DIFFICULTY_SETTINGS (difficulty s))) * 1.2)
                   (16 * ballSpeedMul (DIFFICULTY_SETTINGS (difficulty s)))
            else min (ball_speed (ball s) * 1.05)
                   (14 * ballSpeedMul (DIFFICULTY_SETTINGS (difficulty s))))
    \<and> ball_speed (ball (checkPaddleCollision env paddle isPlayer s))
          \<le> 16 * ballSpeedMul (DIFFICULTY_SETTINGS (difficulty s))
    \<and> (ball_speed (ball s) \<le> 14 * ballSpeedMul (DIFFICULTY_SETTINGS (difficulty s))
          \<longrightarrow> ball_speed (ball s)
                \<le> ball_speed (ball (checkPaddleCollision env paddle isPlayer s)))
    \<and> (\<bar>pad_dy paddle\<bar> > 4
          \<and> ball_speed (ball s) \<le> 16 * ballSpeedMul (DIFFICULTY_SETTINGS (difficulty s))
          \<longrightarrow> ball_speed (ball s)
                \<le> ball_speed (ball (checkPaddleCollision env paddle isPlayer s)))
    \<and> (\<not> \<bar>pad_dy paddle\<bar> > 4
          \<and> 14 * ballSpeedMul (DIFFICULTY_SETTINGS (difficulty s)) < ball_speed (ball s)
          \<longrightarrow> ball_speed (ball (checkPaddleCollision env paddle isPlayer s))
                = 14 * ballSpeedMul (DIFFICULTY_SETTINGS (difficulty s)))"
proof -
  define m where "m = ballSpeedMul (DIFFICULTY_SETTINGS (difficulty s))"
  define v where "v = ball_speed (ball s)"
  have m: "0 < m" unfolding m_def by (rule ballSpeedMul_pos)
  have v: "0 \<le> v" unfolding v_def by (rule assms(2))
  have eq: "ball_speed (ball (checkPaddleCollision env paddle isPlayer s)) =
      (if \<bar>pad_dy paddle\<bar> > 4 then min (min (v * 1.05) (14 * m) * 1.2) (16 * m)
       else min (v * 1.05) (14 * m))"
    unfolding m_def v_def by (rule checkPaddleCollision_speed [OF assms(1)])
  have bound: "(if \<bar>pad_dy paddle\<bar> > 4 then min (min (v * 1.05) (14 * m) * 1.2) (16 * m)
       else min (v * 1.05) (14 * m)) \<le> 16 * m"
    using m by (simp add: min_def)
  have mono14: "v \<le> (if \<bar>pad_dy paddle\<bar> > 4 then min (min (v * 1.05) (14 * m) * 1.2) (16 * m)
       else min (v * 1.05) (14 * m))" if "v \<le> 14 * m"
    using that m v by (simp add: min_def)
  have mono16: "v \<le> min (min (v * 1.05) (14 * m) * 1.2) (16 * m)" if "v \<le> 16 * m"
    using that m v by (simp add: min_def)
  have drop: "min (v * 1.05) (14 * m) = 14 * m" if "14 * m < v"
    using that m v by (simp add: min_def)
  show ?thesis
    unfolding eq m_def [symmetric] v_def [symmetric]
    using bound mono14 mono16 drop by auto
qed

theorem paddle_hit_speed_witness:
  "paddleOverlap (ball hitState) (player hitState) \<and> 0 \<le> ball_speed (ball hitState)
    \<and> \<bar>pad_dy (player hitState)\<bar> > 4
    \<and> ball_speed (ball hitState) \<le> 14 * ballSpeedMul (DIFFICULTY_SETTINGS (difficulty hitState))
    \<and> ball_speed (ball (checkPaddleCollision idleEnv (player hitState) True hitState)) = 63 / 10
    \<and> ball_speed (ball hitState)
         \<le> ball_speed (ball (checkPaddleCollision idleEnv (player hitState) True hitState))"
proof -
  have o: "paddleOverlap (ball hitState) (player hitState)"
    by (simp add: paddleOverlap_def hitState_def initialState_def initialPlayer_def)
  have v: "0 \<le> ball_speed (ball hitState)"
    by (simp add: hitState_def initialState_def)
  show ?thesis
    using paddle_hit_speed [OF o v, of idleEnv True] o
    by (simp add: hitState_def initialState_def initialPlayer_def)
qed

text \<open>
  How a speed above the normal cap arises: the tick in which the moving left paddle hits
  the ball of \<open>topSpeedState\<close> is a power hit and leaves the speed field at 16.
\<close>

lemma top_speed_tick:
  "update upKeyEnv topSpeedState =
     topSpeedState\<lparr>
       ball := \<lparr>ball_x = 52, ball_y = 243, ball_vx = 14, ball_vy = 0, ball_speed = 16,
                ball_radius = 8\<rparr>,
       player := initialPlayer\<lparr>pad_y := 198, pad_dy := -7\<rparr>,
       prevPlayerY := 198,
       isPowerHit := True, powerHitTimer := 1 / 2,
       rallyCount := 1, maxRally := 1, combo := 1, lastHitTime := 10000,
       lastHitBy := PlayerSide\<rparr>"
  by (simp add: tick_defs Let_def topSpeedState_def concrete_defs)

text \<open>The tick in which the resting right paddle returns the ball of \<open>fastBallState\<close>.\<close>

lemma fast_ball_tick:
  "update idleEnv fastBallState =
     fastBallState\<lparr>
       ball := \<lparr>ball_x = 748, ball_y = 250, ball_vx = -14, ball_vy = 0, ball_speed = 14,
                ball_radius = 8\<rparr>,
       rallyCount := 1, maxRally := 1, lastHitTime := 10000, lastHitBy := AiSide\<rparr>"
  by (simp add: tick_defs Let_def fastBallState_def concrete_defs)

text \<open>
  Claim C1 as stated fails: in that tick a paddle collision is processed by \<open>update\<close>
  while the status is \<open>playing\<close>, and the speed field falls from 16 to 14.
\<close>

theorem paddle_hit_speed_counterexample:
  "gameStatus fastBallState = Playing
    \<and> rallyCount (update idleEnv fastBallState) = rallyCount fastBallState + 1
    \<and> lastHitBy (update idleEnv fastBallState) = AiSide
    \<and> ball_speed (ball fastBallState) = 16
    \<and> ball_speed (ball (update idleEnv fastBallState)) = 14
    \<and> \<not> ball_speed (ball fastBallState) \<le> ball_speed (ball (update idleEnv fastBallState))"
  unfolding fast_ball_tick by (simp add: fastBallState_def concrete_defs)


subsection \<open>Velocity after a paddle collision\<close>

text \<open>
  What the handler assigns: the velocity has the magnitude of the local \<open>speed\<close>, the
  speed field after the 5 per cent escalation and before any power-hit boost, times
  the two factors.
\<close>

lemma checkPaddleCollision_velocity:
  assumes "paddleOverlap (ball s) paddle"
  shows "(ball_vx (ball (checkPaddleCollision env paddle isPlayer s)))\<^sup>2
       + (ball_vy (ball (checkPaddleCollision env paddle isPlayer s)))\<^sup>2
     = (min (ball_speed (ball s) * 1.05) (14 * ballSpeedMul (DIFFICULTY_SETTINGS (difficulty s)))
          * (ballSlowFactor s * ballFastFactor s))\<^sup>2"
proof -
  define a where "a = (ball_y (ball s) - (pad_y paddle + pad_height paddle / 2))
                        / (pad_height paddle / 2) * (pi / 3)"
  define w where "w = min (ball_speed (ball s) * 1.05)
                        (14 * ballSpeedMul (DIFFICULTY_SETTINGS (difficulty s)))"
  define k where "k = ballSlowFactor s * ballFastFactor s"
  have vx: "ball_vx (ball (checkPaddleCollision env paddle isPlayer s))
              = cos a * w * (if isPlayer then 1 else -1) * k"
    using assms unfolding a_def w_def k_def
    by (simp add: checkPaddleCollision_def Let_def deflect_def powerHit_def escalateSpeed_def)
  have vy: "ball_vy (ball (checkPaddleCollision env paddle isPlayer s)) = sin a * w * k"
    using assms unfolding a_def w_def k_def
    by (simp add: checkPaddleCollision_def Let_def deflect_def powerHit_def escalateSpeed_def)
  have x2: "(cos a * w * (if isPlayer then 1 else -1) * k)\<^sup>2 = (cos a)\<^sup>2 * (w * k)\<^sup>2"
    by (cases isPlayer) (simp_all add: power_mult_distrib)
  have y2: "(sin a * w * k)\<^sup>2 = (sin a)\<^sup>2 * (w * k)\<^sup>2"
    by (simp add: power_mult_distrib)
  have "(cos a * w * (if isPlayer then 1 else -1) * k)\<^sup>2 + (sin a * w * k)\<^sup>2
          = ((cos a)\<^sup>2 + (sin a)\<^sup>2) * (w * k)\<^sup>2"
    unfolding x2 y2 by (simp only: distrib_right)
  also have "\<dots> = (w * k)\<^sup>2" by simp
  finally show ?thesis unfolding vx vy w_def k_def .
qed

lemma power_hit_tick:
  "update upKeyEnv powerHitState =
     powerHitState\<lparr>
       ball := \<lparr>ball_x = 52, ball_y = 243, ball_vx = 21 / 4, ball_vy = 0, ball_speed = 63 / 10,
                ball_radius = 8\<rparr>,
       player := initialPlayer\<lparr>pad_y := 198, pad_dy := -7\<rparr>,
       prevPlayerY := 198,
       isPowerHit := True, powerHitTimer := 1 / 2,
       rallyCount := 1, maxRally := 1, combo := 1, lastHitTime := 10000,
       lastHitBy := PlayerSide\<rparr>"
  by (simp add: tick_defs Let_def concrete_defs)

text \<open>
  Claim C2 fails on a power hit. In the tick in which the left paddle, moving up by 7,
  meets the ball of \<open>powerHitState\<close> at its centre, the collision leaves the speed field
  at \<open>5 \<times> 1.05 \<times> 1.2 = 6.3\<close> with both factors 1, and the velocity at \<open>(5.25, 0)\<close>: the
  magnitude is the speed before the power-hit boost, not the speed field after it.
\<close>

theorem power_hit_velocity_misses_boost:
  "isPowerHit (update upKeyEnv powerHitState)
    \<and> ball_speed (ball (update upKeyEnv powerHitState))
        * (ballSlowFactor (update upKeyEnv powerHitState)
           * ballFastFactor (update upKeyEnv powerHitState)) = 63 / 10
    \<and> sqrt ((ball_vx (ball (update upKeyEnv powerHitState)))\<^sup>2
           + (ball_vy (ball (update upKeyEnv powerHitState)))\<^sup>2) = 21 / 4"
proof -
  have "sqrt ((21 / 4)\<^sup>2) = (21 / 4 :: real)" by (rule real_sqrt_unique) simp_all
  then show ?thesis unfolding power_hit_tick by (simp add: concrete_defs)
qed


subsection \<open>Expiry of the slow and fast effects\<close>

lemma slowTimerStep_expiry:
  assumes "0 < ballSlowTimer s" and "ballSlowTimer s \<le> dt"
  shows "ball_vx (ball (slowTimerStep s)) = ball_vx (ball s) / ballSlowFactor s"
    and "ball_vy (ball (slowTimerStep s)) = ball_vy (ball s) / ballSlowFactor s"
    and "ballSlowFactor (slowTimerStep s) = 1"
    and "ballSlowTimer (slowTimerStep s) = 0"
  using assms by (simp_all add: slowTimerStep_def Let_def)

lemma slowTimerStep_idle:
  assumes "\<not> (0 < ballSlowTimer s \<and> ballSlowTimer s \<le> dt)"
  shows "ball (slowTimerStep s) = ball s" and "ballSlowFactor (slowTimerStep s) = ballSlowFactor s"
  using assms by (auto simp add: slowTimerStep_def Let_def)

lemma fastTimerStep_expiry:
  assumes "0 < ballFastTimer s" and "ballFastTimer s \<le> dt"
  shows "ball_vx (ball (fastTimerStep s)) = ball_vx (ball s) / ballFastFactor s"
    and "ball_vy (ball (fastTimerStep s)) = ball_vy (ball s) / ballFastFactor s"
    and "ballFastFactor (fastTimerStep s) = 1"
    and "ballFastTimer (fastTimerStep s) = 0"
  using assms by (simp_all add: fastTimerStep_def Let_def)

lemma fastTimerStep_idle:
  assumes "\<not> (0 < ballFastTimer s \<and> ballFastTimer s \<le> dt)"
  shows "ball (fastTimerStep s) = ball s" and "ballFastFactor (fastTimerStep s) = ballFastFactor s"
  using assms by (auto simp add: fastTimerStep_def Let_def)

lemma beforeServe_split:
  "beforeServe env s = fastTimerStep (slowTimerStep (beforeBallTimers env s))"
  by (simp add: beforeServe_def effectTimerSteps_def beforeBallTimers_def)

lemma beforeBallTimers_frame [simp]:
  "ball (beforeBallTimers env s) = ball s"
  "ballSlowTimer (beforeBallTimers env s) = ballSlowTimer s"
  "ballSlowFactor (beforeBallTimers env s) = ballSlowFactor s"
  "ballFastTimer (beforeBallTimers env s) = ballFastTimer s"
  "ballFastFactor (beforeBallTimers env s) = ballFastFactor s"
  by (simp_all add: beforeBallTimers_def)

text \<open>
  Claim C6. When the slow timer reaches zero in a tick (it is positive and at most one
  step \<open>dt\<close>) and the fast timer does not, the tick divides \<open>vx\<close> and \<open>vy\<close> by the recorded
  slow factor, sets that factor to 1 and the timer to 0, and leaves the fast factor as it
  is; so the speed \<open>sqrt(vx\<^sup>2 + vy\<^sup>2)\<close>, multiplied by the factor, is the speed before, and
  a velocity that was multiplied by the factor at pickup is the velocity before the
  pickup again. The same holds with slow and fast exchanged; when both timers reach
  zero in the same tick, both factors are divided out and both are reset to 1. The state is the one the
  tick has when it reaches the serve countdown, where the effect timers have just run.
\<close>

theorem effect_expiry_restores_velocity:
  "(0 < ballSlowTimer s \<and> ballSlowTimer s \<le> dt
      \<and> \<not> (0 < ballFastTimer s \<and> ballFastTimer s \<le> dt)
    \<longrightarrow> ball_vx (ball (beforeServe env s)) = ball_vx (ball s) / ballSlowFactor s
      \<and> ball_vy (ball (beforeServe env s)) = ball_vy (ball s) / ballSlowFactor s
      \<and> ballSlowFactor (beforeServe env s) = 1
      \<and> ballSlowTimer (beforeServe env s) = 0
      \<and> ballFastFactor (beforeServe env s) = ballFastFactor s
      \<and> (0 < ballSlowFactor s \<longrightarrow>
           sqrt ((ball_vx (ball (beforeServe env s)))\<^sup>2 + (ball_vy (ball (beforeServe env s)))\<^sup>2)
             * ballSlowFactor s
           = sqrt ((ball_vx (ball s))\<^sup>2 + (ball_vy (ball s))\<^sup>2))
      \<and> (\<forall>vx0 vy0. ballSlowFactor s \<noteq> 0
             \<and> ball_vx (ball s) = vx0 * ballSlowFactor s
             \<and> ball_vy (ball s) = vy0 * ballSlowFactor s
           \<longrightarrow> ball_vx (ball (beforeServe env s)) = vx0
             \<and> ball_vy (ball (beforeServe env s)) = vy0))
   \<and> (0 < ballFastTimer s \<and> ballFastTimer s \<le> dt
      \<and> \<not> (0 < ballSlowTimer s \<and> ballSlowTimer s \<le> dt)
    \<longrightarrow> ball_vx (ball (beforeServe env s)) = ball_vx (ball s) / ballFastFactor s
      \<and> ball_vy (ball (beforeServe env s)) = ball_vy (ball s) / ballFastFactor s
      \<and> ballFastFactor (beforeServe env s) = 1
      \<and> ballFastTimer (beforeServe env s) = 0
      \<and> ballSlowFactor (beforeServe env s) = ballSlowFactor s
      \<and> (0 < ballFastFactor s \<longrightarrow>
           sqrt ((ball_vx (ball (beforeServe env s)))\<^sup>2 + (ball_vy (ball (beforeServe env s)))\<^sup>2)
             * ballFastFactor s
           = sqrt ((ball_vx (ball s))\<^sup>2 + (ball_vy (ball s))\<^sup>2))
      \<and> (\<forall>vx0 vy0. ballFastFactor s \<noteq> 0
             \<and> ball_vx (ball s) = vx0 * ballFastFactor s
             \<and> ball_vy (ball s) = vy0 * ballFastFactor s
           \<longrightarrow> ball_vx (ball (beforeServe env s)) = vx0
             \<and> ball_vy (ball (beforeServe env s)) = vy0))
   \<and> (0 < ballSlowTimer s \<and> ballSlowTimer s \<le> dt
      \<and> 0 < ballFastTimer s \<and> ballFastTimer s \<le> dt
    \<longrightarrow> ball_vx (ball (beforeServe env s)) = ball_vx (ball s) / ballSlowFactor s / ballFastFactor s
      \<and> ball_vy (ball (beforeServe env s)) = ball_vy (ball s) / ballSlowFactor s / ballFastFactor s
      \<and> ballSlowFactor (beforeServe env s) = 1
      \<and> ballFastFactor (beforeServe env s) = 1)"
  (is "?SLOW \<and> ?FAST \<and> ?BOTH")
proof -
  have mag: "sqrt ((x / f)\<^sup>2 + (y / f)\<^sup>2) * f = sqrt (x\<^sup>2 + y\<^sup>2)" if "0 < f" for x y f :: real
  proof -
    have "(x / f)\<^sup>2 + (y / f)\<^sup>2 = (x\<^sup>2 + y\<^sup>2) / f\<^sup>2"
      by (simp add: power_divide add_divide_distrib)
    then have "sqrt ((x / f)\<^sup>2 + (y / f)\<^sup>2) = sqrt (x\<^sup>2 + y\<^sup>2) / f"
      using that by (simp add: real_sqrt_divide)
    then show ?thesis using that by simp
  qed
  let ?m = "beforeBallTimers env s"
  have slow: ?SLOW
  proof (cases "0 < ballSlowTimer s \<and> ballSlowTimer s \<le> dt
      \<and> \<not> (0 < ballFastTimer s \<and> ballFastTimer s \<le> dt)")
    case False
    then show ?thesis by blast
  next
    case True
    then have a': "0 < ballSlowTimer ?m" "ballSlowTimer ?m \<le> dt" by simp_all
    have b': "\<not> (0 < ballFastTimer (slowTimerStep ?m) \<and> ballFastTimer (slowTimerStep ?m) \<le> dt)"
      using True by simp
    have vx: "ball_vx (ball (beforeServe env s)) = ball_vx (ball s) / ballSlowFactor s"
      unfolding beforeServe_split fastTimerStep_idle(1) [OF b']
      using slowTimerStep_expiry(1) [OF a'] by simp
    have vy: "ball_vy (ball (beforeServe env s)) = ball_vy (ball s) / ballSlowFactor s"
      unfolding beforeServe_split fastTimerStep_idle(1) [OF b']
      using slowTimerStep_expiry(2) [OF a'] by simp
    have f1: "ballSlowFactor (beforeServe env s) = 1"
      unfolding beforeServe_split using slowTimerStep_expiry(3) [OF a'] by simp
    have t0: "ballSlowTimer (beforeServe env s) = 0"
      unfolding beforeServe_split using slowTimerStep_expiry(4) [OF a'] by simp
    have ff: "ballFastFactor (beforeServe env s) = ballFastFactor s"
      unfolding beforeServe_split fastTimerStep_idle(2) [OF b'] by simp
    show ?thesis unfolding vx vy f1 t0 ff using mag by simp
  qed
  have fast: ?FAST
  proof (cases "0 < ballFastTimer s \<and> ballFastTimer s \<le> dt
      \<and> \<not> (0 < ballSlowTimer s \<and> ballSlowTimer s \<le> dt)")
    case False
    then show ?thesis by blast
  next
    case True
    then have b': "\<not> (0 < ballSlowTimer ?m \<and> ballSlowTimer ?m \<le> dt)" by simp
    have a': "0 < ballFastTimer (slowTimerStep ?m)" "ballFastTimer (slowTimerStep ?m) \<le> dt"
      using True by simp_all
    have vx: "ball_vx (ball (beforeServe env s)) = ball_vx (ball s) / ballFastFactor s"
      unfolding beforeServe_split fastTimerStep_expiry(1) [OF a']
      using slowTimerStep_idle(1) [OF b'] by simp
    have vy: "ball_vy (ball (beforeServe env s)) = ball_vy (ball s) / ballFastFactor s"
      unfolding beforeServe_split fastTimerStep_expiry(2) [OF a']
      using slowTimerStep_idle(1) [OF b'] by simp
    have f1: "ballFastFactor (beforeServe env s) = 1"
      unfolding beforeServe_split by (rule fastTimerStep_expiry(3) [OF a'])
    have t0: "ballFastTimer (beforeServe env s) = 0"
      unfolding beforeServe_split by (rule fastTimerStep_expiry(4) [OF a'])
    have sf: "ballSlowFactor (beforeServe env s) = ballSlowFactor s"
      unfolding beforeServe_split using slowTimerStep_idle(2) [OF b'] by simp
    show ?thesis unfolding vx vy f1 t0 sf using mag by simp
  qed
  have both: ?BOTH
  proof (cases "0 < ballSlowTimer s \<and> ballSlowTimer s \<le> dt
      \<and> 0 < ballFastTimer s \<and> ballFastTimer s \<le> dt")
    case False
    then show ?thesis by blast
  next
    case True
    then have a': "0 < ballSlowTimer ?m" "ballSlowTimer ?m \<le> dt" by simp_all
    have b': "0 < ballFastTimer (slowTimerStep ?m)" "ballFastTimer (slowTimerStep ?m) \<le> dt"
      using True by simp_all
    have vx: "ball_vx (ball (beforeServe env s))
                = ball_vx (ball s) / ballSlowFactor s / ballFastFactor s"
      unfolding beforeServe_split fastTimerStep_expiry(1) [OF b']
      using slowTimerStep_expiry(1) [OF a'] by simp
    have vy: "ball_vy (ball (beforeServe env s))
                = ball_vy (ball s) / ballSlowFactor s / ballFastFactor s"
      unfolding beforeServe_split fastTimerStep_expiry(2) [OF b']
      using slowTimerStep_expiry(2) [OF a'] by simp
    have f1: "ballSlowFactor (beforeServe env s) = 1"
      unfolding beforeServe_split using slowTimerStep_expiry(3) [OF a'] by simp
    have f2: "ballFastFactor (beforeServe env s) = 1"
      unfolding beforeServe_split by (rule fastTimerStep_expiry(3) [OF b'])
    show ?thesis unfolding vx vy f1 f2 by simp
  qed
  from slow fast both show ?thesis by (intro conjI)
qed

theorem effect_expiry_restores_velocity_witness:
  "0 < ballSlowTimer slowExpiringState \<and> ballSlowTimer slowExpiringState \<le> dt
    \<and> \<not> (0 < ballFastTimer slowExpiringState \<and> ballFastTimer slowExpiringState \<le> dt)
    \<and> ball_vx (ball slowExpiringState) = 5 * (6 / 10) * (16 / 10)
    \<and> ball_vx (ball (beforeServe idleEnv slowExpiringState)) = 5 * (16 / 10)
    \<and> ballSlowFactor (beforeServe idleEnv slowExpiringState) = 1
    \<and> ballFastFactor (beforeServe idleEnv slowExpiringState) = 16 / 10
    \<and> 0 < ballFastTimer fastExpiringState \<and> ballFastTimer fastExpiringState \<le> dt
    \<and> \<not> (0 < ballSlowTimer fastExpiringState \<and> ballSlowTimer fastExpiringState \<le> dt)
    \<and> ball_vx (ball (beforeServe idleEnv fastExpiringState)) = 5 * (6 / 10)
    \<and> ballFastFactor (beforeServe idleEnv fastExpiringState) = 1
    \<and> ballSlowFactor (beforeServe idleEnv fastExpiringState) = 6 / 10
    \<and> 0 < ballSlowTimer bothExpiringState \<and> ballSlowTimer bothExpiringState \<le> dt
    \<and> 0 < ballFastTimer bothExpiringState \<and> ballFastTimer bothExpiringState \<le> dt
    \<and> ball_vx (ball (beforeServe idleEnv bothExpiringState)) = 5
    \<and> ballSlowFactor (beforeServe idleEnv bothExpiringState) = 1
    \<and> ballFastFactor (beforeServe idleEnv bothExpiringState) = 1"
  using effect_expiry_restores_velocity [of slowExpiringState idleEnv]
    effect_expiry_restores_velocity [of fastExpiringState idleEnv]
    effect_expiry_restores_velocity [of bothExpiringState idleEnv]
  by (simp add: slowExpiringState_def fastExpiringState_def bothExpiringState_def
      initialState_def)


subsection \<open>Combo counter\<close>

lemma checkPaddleCollision_combo:
  "combo (checkPaddleCollision env paddle isPlayer s) =
     (if paddleOverlap (ball s) paddle \<and> isPlayer
      then (if now env - lastHitTime s < 2000 then combo s + 1 else 1)
      else combo s)"
  by (simp add: checkPaddleCollision_def Let_def trackCombo_def)

lemma checkPaddleCollision_lastHitTime:
  "lastHitTime (checkPaddleCollision env paddle isPlayer s) =
     (if paddleOverlap (ball s) paddle then now env else lastHitTime s)"
  by (simp add: checkPaddleCollision_def Let_def trackCombo_def)

lemma checkPaddleCollision_lastHitBy:
  "lastHitBy (checkPaddleCollision env paddle isPlayer s) =
     (if paddleOverlap (ball s) paddle then (if isPlayer then PlayerSide else AiSide)
      else lastHitBy s)"
  by (simp add: checkPaddleCollision_def Let_def trackCombo_def)

text \<open>
  Claim C7, as the code has it. The collision handler changes the combo counter only on
  left-paddle (player-side) collisions: it increments the counter by 1 exactly when the
  previous paddle hit, by either side, was less than 2000 ms earlier on the clock
  (\<open>lastHitTime\<close> is set to the clock on every paddle collision, left or right), and
  otherwise resets it to 1; a right-paddle hit leaves the counter unchanged.
\<close>

theorem combo_on_collision:
  assumes "paddleOverlap (ball s) paddle"
  shows "combo (checkPaddleCollision env paddle True s) =
           (if now env - lastHitTime s < 2000 then combo s + 1 else 1)
    \<and> combo (checkPaddleCollision env paddle False s) = combo s
    \<and> lastHitTime (checkPaddleCollision env paddle True s) = now env
    \<and> lastHitTime (checkPaddleCollision env paddle False s) = now env"
  using assms
  by (simp add: checkPaddleCollision_combo checkPaddleCollision_lastHitTime)

theorem combo_on_collision_witness:
  "paddleOverlap (ball hitState) (player hitState)
    \<and> combo (checkPaddleCollision (idleEnv\<lparr>now := 1500\<rparr>) (player hitState) True hitState) = 1
    \<and> combo (checkPaddleCollision (idleEnv\<lparr>now := 2000\<rparr>) (player hitState) True hitState) = 1
    \<and> combo (checkPaddleCollision idleEnv (player hitState) False hitState) = 0
    \<and> lastHitTime (checkPaddleCollision idleEnv (player hitState) False hitState) = 10000"
proof -
  have o: "paddleOverlap (ball hitState) (player hitState)"
    by (simp add: paddleOverlap_def hitState_def initialState_def initialPlayer_def)
  show ?thesis
    using combo_on_collision [OF o, of "idleEnv\<lparr>now := 1500\<rparr>"]
      combo_on_collision [OF o, of "idleEnv\<lparr>now := 2000\<rparr>"]
      combo_on_collision [OF o, of idleEnv] o
    by (simp add: hitState_def initialState_def idleEnv_def)
qed

lemma comboHit1_fields:
  "combo comboHit1 = 1" "lastHitTime comboHit1 = 10000" "lastHitBy comboHit1 = PlayerSide"
  "ai comboHit1 = initialAi 7" "player comboHit1 = initialPlayer\<lparr>pad_dy := 5\<rparr>"
  "ball_radius (ball comboHit1) = 8"
  by (simp_all add: comboHit1_def checkPaddleCollision_combo checkPaddleCollision_lastHitTime
      checkPaddleCollision_lastHitBy paddleOverlap_def hitState_def initialState_def
      initialPlayer_def)

lemma comboHit2_fields:
  "combo comboHit2 = 1" "lastHitTime comboHit2 = 11500" "lastHitBy comboHit2 = AiSide"
  "player comboHit2 = initialPlayer\<lparr>pad_dy := 5\<rparr>" "ball_radius (ball comboHit2) = 8"
  by (simp_all add: comboHit2_def atRightPaddle_def checkPaddleCollision_combo
      checkPaddleCollision_lastHitTime checkPaddleCollision_lastHitBy paddleOverlap_def
      comboHit1_fields initialAi_def)

text \<open>
  Claim C7 as stated fails. The two player-side hits of the trace are 3000 ms apart,
  not less than 2000 ms, yet the second one increments the combo counter from 1 to 2
  instead of resetting it to 1: the right-paddle hit in between, 1500 ms before it, is
  the hit the handler measures from.
\<close>

theorem combo_counterexample:
  "lastHitBy comboHit1 = PlayerSide \<and> lastHitTime comboHit1 = 10000 \<and> combo comboHit1 = 1
    \<and> lastHitBy comboHit2 = AiSide \<and> lastHitTime comboHit2 = 11500 \<and> combo comboHit2 = 1
    \<and> lastHitBy comboHit3 = PlayerSide \<and> lastHitTime comboHit3 = 13000
    \<and> \<not> (13000 - 10000 < (2000 :: int))
    \<and> combo comboHit3 = combo comboHit2 + 1
    \<and> combo comboHit3 \<noteq> 1"
  by (simp add: comboHit1_fields comboHit2_fields comboHit3_def atLeftPaddle_def
      checkPaddleCollision_combo checkPaddleCollision_lastHitTime checkPaddleCollision_lastHitBy
      paddleOverlap_def initialPlayer_def)


subsection \<open>Scoring on the left edge\<close>

lemma powerUpPickup_none:
  assumes "powerUps s = []"
  shows "powerUpPickup s = s"
  using assms by (cases s) (simp add: powerUpPickup_def)

lemma scoring_left_exit_serve:
  assumes "ball_x (ball m) < -20" and "\<not> pad_score (ai m) + 1 \<ge> winScore m"
  shows "scoring env m = prepareServe ToLeft (m\<lparr>ai := (ai m)\<lparr>pad_score := pad_score (ai m) + 1\<rparr>\<rparr>)"
  using assms by (simp add: scoring_def scoreRight_def scoreLeft_def Let_def prepareServe_def)

lemma scoring_left_exit_over:
  assumes "ball_x (ball m) < -20" and "pad_score (ai m) + 1 \<ge> winScore m"
  shows "scoring env m = m\<lparr>ai := (ai m)\<lparr>pad_score := pad_score (ai m) + 1\<rparr>,
           gameStatus := GameOver,
           winner := (if mode m = Multi then ''P2'' else ''AI''),
           matchEndMs := now env\<rparr>"
  using assms by (simp add: scoring_def scoreRight_def scoreLeft_def Let_def)

text \<open>
  Claim C4. In a tick of a running match that is past the serve countdown, if the ball's
  \<open>x\<close> after movement and collisions is below \<open>-20\<close>, then the right side's score goes up
  by exactly 1 and the left side's score stays; and either the new score has reached
  \<open>winScore\<close>, and the status becomes \<open>gameOver\<close> with the right side as winner (\<open>P2\<close> in
  two-player mode, \<open>AI\<close> otherwise), or it has not, and a serve begins: status still
  \<open>playing\<close>, the ball at \<open>(CANVAS_WIDTH / 2, CANVAS_HEIGHT / 2)\<close> with velocity \<open>(0, 0)\<close>,
  \<open>serveCountdown = 3\<close>, served to the left.
\<close>

theorem left_exit_scores_right:
  assumes "gameStatus s = Playing"
    and "\<not> serveCountdown s > 0"
    and "ball_x (ball (rallyPhysics env (beforeServe env s))) < -20"
  shows "pad_score (ai (update env s)) = pad_score (ai s) + 1
    \<and> pad_score (player (update env s)) = pad_score (player s)
    \<and> (if pad_score (ai s) + 1 \<ge> winScore s
        then gameStatus (update env s) = GameOver
           \<and> winner (update env s) = (if mode s = Multi then ''P2'' else ''AI'')
        else gameStatus (update env s) = Playing
           \<and> ball_x (ball (update env s)) = CANVAS_WIDTH / 2
           \<and> ball_y (ball (update env s)) = CANVAS_HEIGHT / 2
           \<and> ball_vx (ball (update env s)) = 0
           \<and> ball_vy (ball (update env s)) = 0
           \<and> serveCountdown (update env s) = 3
           \<and> serveDirection (update env s) = ToLeft)"
proof -
  define m where "m = rallyPhysics env (beforeServe env s)"
  have u: "update env s = powerUpPickup (scoring env m)"
    using assms(1,2) unfolding m_def by (simp add: update_def Let_def)
  have x: "ball_x (ball m) < -20" using assms(3) unfolding m_def .
  have fr: "pad_score (ai m) = pad_score (ai s)" "pad_score (player m) = pad_score (player s)"
    "winScore m = winScore s" "mode m = mode s" "gameStatus m = gameStatus s"
    unfolding m_def by simp_all
  show ?thesis
  proof (cases "pad_score (ai s) + 1 \<ge> winScore s")
    case True
    then have "pad_score (ai m) + 1 \<ge> winScore m" using fr by simp
    from scoring_left_exit_over [OF x this, of env] True fr show ?thesis
      unfolding u by simp
  next
    case False
    then have "\<not> pad_score (ai m) + 1 \<ge> winScore m" using fr by simp
    from scoring_left_exit_serve [OF x this, of env]
    have sc: "scoring env m
        = prepareServe ToLeft (m\<lparr>ai := (ai m)\<lparr>pad_score := pad_score (ai m) + 1\<rparr>\<rparr>)" .
    have "powerUps (scoring env m) = []" unfolding sc by (simp add: prepareServe_def Let_def)
    then have "update env s = scoring env m" unfolding u by (rule powerUpPickup_none)
    with False fr assms(1) show ?thesis unfolding sc by (simp add: prepareServe_def Let_def)
  qed
qed

lemma left_exit_physics:
  "ball_x (ball (rallyPhysics idleEnv (beforeServe idleEnv leftExitState))) = -25"
  "ball_x (ball (rallyPhysics idleEnv (beforeServe idleEnv matchPointState))) = -25"
  by (simp_all add: tick_defs Let_def leftExitState_def matchPointState_def concrete_defs)

theorem left_exit_scores_right_witness:
  "gameStatus leftExitState = Playing \<and> \<not> serveCountdown leftExitState > 0
    \<and> ball_x (ball (rallyPhysics idleEnv (beforeServe idleEnv leftExitState))) < -20
    \<and> pad_score (ai (update idleEnv leftExitState)) = 1
    \<and> gameStatus (update idleEnv leftExitState) = Playing
    \<and> ball_x (ball (update idleEnv leftExitState)) = 400
    \<and> serveCountdown (update idleEnv leftExitState) = 3
    \<and> gameStatus matchPointState = Playing \<and> \<not> serveCountdown matchPointState > 0
    \<and> ball_x (ball (rallyPhysics idleEnv (beforeServe idleEnv matchPointState))) < -20
    \<and> pad_score (ai (update idleEnv matchPointState)) = 7
    \<and> gameStatus (update idleEnv matchPointState) = GameOver
    \<and> winner (update idleEnv matchPointState) = ''P2''"
proof -
  have a: "gameStatus leftExitState = Playing" "\<not> serveCountdown leftExitState > 0"
    "gameStatus matchPointState = Playing" "\<not> serveCountdown matchPointState > 0"
    by (simp_all add: leftExitState_def matchPointState_def initialState_def)
  have b: "ball_x (ball (rallyPhysics idleEnv (beforeServe idleEnv leftExitState))) < -20"
    "ball_x (ball (rallyPhysics idleEnv (beforeServe idleEnv matchPointState))) < -20"
    by (simp_all add: left_exit_physics)
  show ?thesis
    using left_exit_scores_right [OF a(1) a(2) b(1)] left_exit_scores_right [OF a(3) a(4) b(2)]
      a b
    by (simp add: leftExitState_def matchPointState_def initialState_def initialAi_def)
qed


subsection \<open>Enlarge and shrink timers exclude each other\<close>

lemma timersExclusive_timer_steps:
  assumes "timersExclusive s"
  shows "timersExclusive (playerEnlargeTimerStep s)" "timersExclusive (aiEnlargeTimerStep s)"
    "timersExclusive (playerShrinkTimerStep s)" "timersExclusive (aiShrinkTimerStep s)"
  using assms
  by (auto simp add: timersExclusive_def playerEnlargeTimerStep_def aiEnlargeTimerStep_def
      playerShrinkTimerStep_def aiShrinkTimerStep_def Let_def)

lemma timersExclusive_frames [simp]:
  "timersExclusive (adaptiveAIStep s) = timersExclusive s"
  "timersExclusive (movePaddles env s) = timersExclusive s"
  "timersExclusive (trackDy s) = timersExclusive s"
  "timersExclusive (powerHitTimerStep s) = timersExclusive s"
  "timersExclusive (spawnPowerUps env s) = timersExclusive s"
  "timersExclusive (ttlStep s) = timersExclusive s"
  "timersExclusive (slowTimerStep s) = timersExclusive s"
  "timersExclusive (fastTimerStep s) = timersExclusive s"
  "timersExclusive (serveCountdownStep env s) = timersExclusive s"
  "timersExclusive (rallyPhysics env s) = timersExclusive s"
  by (simp_all add: timersExclusive_def)

lemma timersExclusive_beforeServe:
  assumes "timersExclusive s"
  shows "timersExclusive (beforeServe env s)"
  using assms
  by (simp add: beforeServe_def effectTimerSteps_def timersExclusive_timer_steps)

lemma timersExclusive_prepareServe [simp]: "timersExclusive (prepareServe d s)"
  by (simp add: timersExclusive_def prepareServe_def Let_def)

lemma timersExclusive_scoring:
  assumes "timersExclusive s"
  shows "timersExclusive (scoring env s)"
proof -
  have a: "timersExclusive (scoreRight env s)"
    using assms by (simp add: scoreRight_def Let_def) (simp add: timersExclusive_def)
  have "timersExclusive (scoreLeft env t)" if "timersExclusive t" for t
    using that by (simp add: scoreLeft_def Let_def) (simp add: timersExclusive_def)
  from this [OF a] show ?thesis by (simp add: scoring_def)
qed

lemma timersExclusive_applyPowerUp:
  assumes "timersExclusive s"
  shows "timersExclusive (applyPowerUp pu s)"
  using assms
  by (auto simp add: timersExclusive_def applyPowerUp_def Let_def split: PowerUpType.splits)

lemma timersExclusive_powerUpPickup:
  assumes "timersExclusive s"
  shows "timersExclusive (powerUpPickup s)"
proof -
  have "timersExclusive (snd (collectPowerUps (powerUps s) s))"
    using timersExclusive_applyPowerUp assms by (rule collectPowerUps_invariant)
  then show ?thesis by (simp add: powerUpPickup_def split_beta timersExclusive_def)
qed

lemma timersExclusive_update:
  assumes "timersExclusive s"
  shows "timersExclusive (update env s)"
  using assms
  by (simp add: update_def Let_def timersExclusive_beforeServe timersExclusive_scoring
      timersExclusive_powerUpPickup)

lemma timersExclusive_reachable:
  assumes "reachable s"
  shows "timersExclusive s"
  using assms
proof (induction rule: reachable.induct)
  case init
  show ?case by (simp add: timersExclusive_def initialState_def)
next
  case (start s a)
  show ?case by (simp add: startGame_def Let_def)
next
  case (tick s env)
  from tick.IH show ?case by (rule timersExclusive_update)
next
  case (pause s)
  then show ?case by (simp add: togglePause_def timersExclusive_def)
next
  case (blur s)
  then show ?case by (simp add: pauseIfPlaying_def timersExclusive_def)
next
  case (menu s)
  then show ?case by (simp add: returnToMenu_def timersExclusive_def)
next
  case (touch s x y)
  then show ?case by (simp add: handleTouch_def timersExclusive_def)
next
  case (optAdaptive s b)
  then show ?case by (simp add: syncAdaptiveAI_def timersExclusive_def)
next
  case (optPowerUps s b)
  then show ?case by (simp add: syncPowerUpsEnabled_def timersExclusive_def Let_def)
next
  case (optSpawnRate s r)
  then show ?case by (simp add: syncPowerUpSpawnRate_def timersExclusive_def)
qed

text \<open>
  Claim C5. In every reachable state (reached from the initial state by \<open>startGame\<close>,
  ticks, which include the power-up pickups, and the other entry points) no paddle has
  its enlarge timer and its shrink timer non-zero at once. Applying an enlarge effect
  sets the enlarged paddle's shrink timer to 0 (and its enlarge timer to 6), applying a
  shrink effect sets the shrunk paddle's enlarge timer to 0 (and its shrink timer to 6),
  and the timer steps of a tick leave a timer that is zero at zero.
\<close>

theorem enlarge_shrink_exclusive:
  assumes "reachable s"
  shows "(playerPowerUpTimer s = 0 \<or> playerShrinkTimer s = 0)
    \<and> (aiPowerUpTimer s = 0 \<or> aiShrinkTimer s = 0)
    \<and> (pu_type pu = Enlarge \<and> lastHitBy t = PlayerSide \<longrightarrow>
          playerShrinkTimer (applyPowerUp pu t) = 0 \<and> playerPowerUpTimer (applyPowerUp pu t) = 6)
    \<and> (pu_type pu = Enlarge \<and> lastHitBy t = AiSide \<longrightarrow>
          aiShrinkTimer (applyPowerUp pu t) = 0 \<and> aiPowerUpTimer (applyPowerUp pu t) = 6)
    \<and> (pu_type pu = Shrink \<and> lastHitBy t = PlayerSide \<longrightarrow>
          aiPowerUpTimer (applyPowerUp pu t) = 0 \<and> aiShrinkTimer (applyPowerUp pu t) = 6)
    \<and> (pu_type pu = Shrink \<and> lastHitBy t = AiSide \<longrightarrow>
          playerPowerUpTimer (applyPowerUp pu t) = 0 \<and> playerShrinkTimer (applyPowerUp pu t) = 6)
    \<and> (playerPowerUpTimer t = 0 \<longrightarrow> playerPowerUpTimer (beforeServe env t) = 0)
    \<and> (aiPowerUpTimer t = 0 \<longrightarrow> aiPowerUpTimer (beforeServe env t) = 0)
    \<and> (playerShrinkTimer t = 0 \<longrightarrow> playerShrinkTimer (beforeServe env t) = 0)
    \<and> (aiShrinkTimer t = 0 \<longrightarrow> aiShrinkTimer (beforeServe env t) = 0)"
proof -
  have excl: "(playerPowerUpTimer s = 0 \<or> playerShrinkTimer s = 0)
      \<and> (aiPowerUpTimer s = 0 \<or> aiShrinkTimer s = 0)"
    using timersExclusive_reachable [OF assms] by (simp add: timersExclusive_def)
  have app: "(pu_type pu = Enlarge \<and> lastHitBy t = PlayerSide \<longrightarrow>
          playerShrinkTimer (applyPowerUp pu t) = 0 \<and> playerPowerUpTimer (applyPowerUp pu t) = 6)
    \<and> (pu_type pu = Enlarge \<and> lastHitBy t = AiSide \<longrightarrow>
          aiShrinkTimer (applyPowerUp pu t) = 0 \<and> aiPowerUpTimer (applyPowerUp pu t) = 6)
    \<and> (pu_type pu = Shrink \<and> lastHitBy t = PlayerSide \<longrightarrow>
          aiPowerUpTimer (applyPowerUp pu t) = 0 \<and> aiShrinkTimer (applyPowerUp pu t) = 6)
    \<and> (pu_type pu = Shrink \<and> lastHitBy t = AiSide \<longrightarrow>
          playerPowerUpTimer (applyPowerUp pu t) = 0 \<and> playerShrinkTimer (applyPowerUp pu t) = 6)"
    by (simp add: applyPowerUp_def Let_def)
  have t1: "playerPowerUpTimer t = 0 \<longrightarrow> playerPowerUpTimer (beforeServe env t) = 0"
    by (simp add: beforeServe_def effectTimerSteps_def playerEnlargeTimerStep_def)
  have t2: "aiPowerUpTimer t = 0 \<longrightarrow> aiPowerUpTimer (beforeServe env t) = 0"
    by (simp add: beforeServe_def effectTimerSteps_def aiEnlargeTimerStep_def)
  have t3: "playerShrinkTimer t = 0 \<longrightarrow> playerShrinkTimer (beforeServe env t) = 0"
    by (simp add: beforeServe_def effectTimerSteps_def playerShrinkTimerStep_def)
  have t4: "aiShrinkTimer t = 0 \<longrightarrow> aiShrinkTimer (beforeServe env t) = 0"
    by (simp add: beforeServe_def effectTimerSteps_def aiShrinkTimerStep_def)
  from excl app t1 t2 t3 t4 show ?thesis by blast
qed

theorem enlarge_shrink_exclusive_witness:
  "reachable (update idleEnv (startGame firstMatch initialState))
    \<and> (playerPowerUpTimer (update idleEnv (startGame firstMatch initialState)) = 0
        \<or> playerShrinkTimer (update idleEnv (startGame firstMatch initialState)) = 0)
    \<and> lastHitBy initialState = PlayerSide
    \<and> lastHitBy (initialState\<lparr>lastHitBy := AiSide\<rparr>) = AiSide
    \<and> playerShrinkTimer (applyPowerUp enlargePu initialState) = 0
    \<and> aiShrinkTimer (applyPowerUp enlargePu (initialState\<lparr>lastHitBy := AiSide\<rparr>)) = 0
    \<and> aiPowerUpTimer (applyPowerUp shrinkPu initialState) = 0
    \<and> playerPowerUpTimer (applyPowerUp shrinkPu (initialState\<lparr>lastHitBy := AiSide\<rparr>)) = 0
    \<and> playerPowerUpTimer initialState = 0 \<and> aiPowerUpTimer initialState = 0
    \<and> playerShrinkTimer initialState = 0 \<and> aiShrinkTimer initialState = 0
    \<and> playerPowerUpTimer (beforeServe idleEnv initialState) = 0
    \<and> aiShrinkTimer (beforeServe idleEnv initialState) = 0"
proof -
  have r: "reachable (update idleEnv (startGame firstMatch initialState))"
    by (intro reachable.tick reachable.start reachable.init)
  show ?thesis
    using enlarge_shrink_exclusive [OF r, of enlargePu initialState idleEnv]
      enlarge_shrink_exclusive [OF r, of enlargePu "initialState\<lparr>lastHitBy := AiSide\<rparr>" idleEnv]
      enlarge_shrink_exclusive [OF r, of shrinkPu initialState idleEnv]
      enlarge_shrink_exclusive [OF r, of shrinkPu "initialState\<lparr>lastHitBy := AiSide\<rparr>" idleEnv]
      r
    by (simp add: enlargePu_def shrinkPu_def initialState_def)
qed


subsection \<open>The ball stays between the top and bottom walls\<close>

lemma ballInCourt_frames [simp]:
  "ballInCourt (beforeServe env s) = ballInCourt s"
  "ballInCourt (paddleCollisions env s) = ballInCourt s"
  "ballInCourt (powerUpPickup s) = ballInCourt s"
  by (simp_all add: ballInCourt_def)

lemma ballInCourt_wall:
  assumes "ball_radius (ball s) = BALL_RADIUS"
  shows "ballInCourt (wallCollision s)"
  using assms by (simp add: ballInCourt_def wallCollision_def Let_def)

lemma ballInCourt_rallyPhysics:
  assumes "ballInCourt s"
  shows "ballInCourt (rallyPhysics env s)"
proof -
  have "ball_radius (ball (moveBall s)) = BALL_RADIUS"
    using assms by (simp add: ballInCourt_def)
  then show ?thesis by (simp add: rallyPhysics_def ballInCourt_wall)
qed

lemma ballInCourt_prepareServe [simp]: "ballInCourt (prepareServe d s)"
  by (simp add: ballInCourt_def prepareServe_def Let_def)

lemma ballInCourt_scoring:
  assumes "ballInCourt s"
  shows "ballInCourt (scoring env s)"
proof -
  have a: "ballInCourt (scoreRight env s)"
    using assms by (simp add: scoreRight_def Let_def) (simp add: ballInCourt_def)
  have "ballInCourt (scoreLeft env t)" if "ballInCourt t" for t
    using that by (simp add: scoreLeft_def Let_def) (simp add: ballInCourt_def)
  from this [OF a] show ?thesis by (simp add: scoring_def)
qed

lemma ballInCourt_serveCountdownStep:
  assumes "ballInCourt s"
  shows "ballInCourt (serveCountdownStep env s)"
  using assms by (simp add: serveCountdownStep_def resetBall_def Let_def ballInCourt_def)

lemma ballInCourt_update:
  assumes "ballInCourt s"
  shows "ballInCourt (update env s)"
  using assms
  by (simp add: update_def Let_def ballInCourt_serveCountdownStep ballInCourt_scoring
      ballInCourt_rallyPhysics)

lemma ballInCourt_reachable:
  assumes "reachable s"
  shows "ballInCourt s"
  using assms
proof (induction rule: reachable.induct)
  case init
  show ?case by (simp add: ballInCourt_def initialState_def)
next
  case (start s a)
  show ?case by (simp add: startGame_def Let_def)
next
  case (tick s env)
  from tick.IH show ?case by (rule ballInCourt_update)
next
  case (pause s)
  then show ?case by (simp add: togglePause_def ballInCourt_def)
next
  case (blur s)
  then show ?case by (simp add: pauseIfPlaying_def ballInCourt_def)
next
  case (menu s)
  then show ?case by (simp add: returnToMenu_def ballInCourt_def)
next
  case (touch s x y)
  then show ?case by (simp add: handleTouch_def ballInCourt_def)
next
  case (optAdaptive s b)
  then show ?case by (simp add: syncAdaptiveAI_def ballInCourt_def)
next
  case (optPowerUps s b)
  then show ?case by (simp add: syncPowerUpsEnabled_def ballInCourt_def Let_def)
next
  case (optSpawnRate s r)
  then show ?case by (simp add: syncPowerUpSpawnRate_def ballInCourt_def)
qed

text \<open>
  Claim C10. In every reachable state (the initial state, and every state that a tick
  or an entry point makes of a reachable state) the ball's \<open>y\<close> lies in
  \<open>[ball.radius, CANVAS_HEIGHT - ball.radius]\<close>. For a ball of radius 8 in any state \<open>t\<close>:
  if the movement of a rally tick carries \<open>y - radius\<close> to or below 0, the ball is at
  \<open>y = radius\<close> after the tick's wall and paddle resolution, and if it carries
  \<open>y + radius\<close> to or above \<open>CANVAS_HEIGHT\<close>, the ball is at \<open>y = CANVAS_HEIGHT - radius\<close>;
  and \<open>prepareServe\<close> and \<open>resetBall\<close> put the ball at \<open>y = CANVAS_HEIGHT / 2\<close>.
\<close>

theorem ball_y_in_court:
  assumes "reachable s"
  shows "ball_radius (ball s) \<le> ball_y (ball s)
    \<and> ball_y (ball s) \<le> CANVAS_HEIGHT - ball_radius (ball s)
    \<and> (ball_radius (ball t) = BALL_RADIUS
         \<and> ball_y (ball t) + ball_vy (ball t) - ball_radius (ball t) \<le> 0
        \<longrightarrow> ball_y (ball (rallyPhysics env t)) = ball_radius (ball t))
    \<and> (ball_radius (ball t) = BALL_RADIUS
         \<and> ball_y (ball t) + ball_vy (ball t) + ball_radius (ball t) \<ge> CANVAS_HEIGHT
        \<longrightarrow> ball_y (ball (rallyPhysics env t)) = CANVAS_HEIGHT - ball_radius (ball t))
    \<and> ball_y (ball (prepareServe d t)) = CANVAS_HEIGHT / 2
    \<and> ball_y (ball (resetBall env d t)) = CANVAS_HEIGHT / 2"
proof -
  have inv: "ball_radius (ball s) \<le> ball_y (ball s)
      \<and> ball_y (ball s) \<le> CANVAS_HEIGHT - ball_radius (ball s)"
    using ballInCourt_reachable [OF assms] by (simp add: ballInCourt_def)
  have y: "ball_y (ball (rallyPhysics env t)) = ball_y (ball (wallCollision (moveBall t)))"
    by (simp add: rallyPhysics_def)
  have top: "ball_radius (ball t) = BALL_RADIUS
         \<and> ball_y (ball t) + ball_vy (ball t) - ball_radius (ball t) \<le> 0
        \<longrightarrow> ball_y (ball (rallyPhysics env t)) = ball_radius (ball t)"
    unfolding y by (simp add: wallCollision_def moveBall_def Let_def)
  have bottom: "ball_radius (ball t) = BALL_RADIUS
         \<and> ball_y (ball t) + ball_vy (ball t) + ball_radius (ball t) \<ge> CANVAS_HEIGHT
        \<longrightarrow> ball_y (ball (rallyPhysics env t)) = CANVAS_HEIGHT - ball_radius (ball t)"
    unfolding y by (simp add: wallCollision_def moveBall_def Let_def)
  have serve: "ball_y (ball (prepareServe d t)) = CANVAS_HEIGHT / 2
      \<and> ball_y (ball (resetBall env d t)) = CANVAS_HEIGHT / 2"
    by (simp add: prepareServe_def resetBall_def Let_def)
  from inv top bottom serve show ?thesis by blast
qed

theorem ball_y_in_court_witness:
  "reachable (update idleEnv (startGame firstMatch initialState))
    \<and> ball_radius (ball (update idleEnv (startGame firstMatch initialState)))
        \<le> ball_y (ball (update idleEnv (startGame firstMatch initialState)))
    \<and> ball_radius (ball topWallState) = BALL_RADIUS
    \<and> ball_y (ball topWallState) + ball_vy (ball topWallState) - ball_radius (ball topWallState) \<le> 0
    \<and> ball_y (ball (rallyPhysics idleEnv topWallState)) = 8
    \<and> ball_radius (ball bottomWallState) = BALL_RADIUS
    \<and> ball_y (ball bottomWallState) + ball_vy (ball bottomWallState)
         + ball_radius (ball bottomWallState) \<ge> CANVAS_HEIGHT
    \<and> ball_y (ball (rallyPhysics idleEnv bottomWallState)) = 492
    \<and> ball_y (ball (prepareServe ToLeft topWallState)) = 250"
proof -
  have r: "reachable (update idleEnv (startGame firstMatch initialState))"
    by (intro reachable.tick reachable.start reachable.init)
  show ?thesis
    using ball_y_in_court [OF r, of topWallState idleEnv ToLeft]
      ball_y_in_court [OF r, of bottomWallState idleEnv ToLeft] r
    by (simp add: topWallState_def bottomWallState_def initialState_def)
qed


subsection \<open>The ball always moves sideways during a rally\<close>

text \<open>
  The deflection angle stays inside a quarter turn: the overlap test bounds the hit
  position by \<open>1 + 2 \<times> radius / height < 3 / 2\<close>.
\<close>

lemma deflection_cos_pos:
  assumes o: "paddleOverlap b paddle" and r: "ball_radius b = BALL_RADIUS"
    and h: "54 \<le> pad_height paddle"
  shows "0 < cos ((ball_y b - (pad_y paddle + pad_height paddle / 2)) / (pad_height paddle / 2)
                    * (pi / 3))"
proof -
  define hh where "hh = pad_height paddle / 2"
  define d where "d = ball_y b - (pad_y paddle + pad_height paddle / 2)"
  have hh: "27 \<le> hh" using h by (simp add: hh_def)
  have up: "d < hh + 8" and lo: "- (hh + 8) < d"
    using o r by (simp_all add: paddleOverlap_def d_def hh_def)
  have "d < hh * (3 / 2)" using up hh by simp
  then have p1: "d / hh < 3 / 2" using hh by (simp add: field_simps)
  have "- (hh * (3 / 2)) < d" using lo hh by simp
  then have p2: "- (3 / 2) < d / hh" using hh by (simp add: field_simps)
  have "d / hh * (pi / 3) < 3 / 2 * (pi / 3)"
    using p1 by (intro mult_strict_right_mono) simp_all
  then have a1: "d / hh * (pi / 3) < pi / 2" by simp
  have "- (3 / 2) * (pi / 3) < d / hh * (pi / 3)"
    using p2 by (intro mult_strict_right_mono) simp_all
  then have a2: "- (pi / 2) < d / hh * (pi / 3)" by simp
  from a2 a1 have "0 < cos (d / hh * (pi / 3))" by (rule cos_gt_zero_pi)
  then show ?thesis by (simp add: d_def hh_def)
qed

lemma ballMoving_frames [simp]:
  "ballMoving (adaptiveAIStep s) = ballMoving s"
  "ballMoving (movePaddles env s) = ballMoving s"
  "ballMoving (trackDy s) = ballMoving s"
  "ballMoving (powerHitTimerStep s) = ballMoving s"
  "ballMoving (spawnPowerUps env s) = ballMoving s"
  "ballMoving (ttlStep s) = ballMoving s"
  by (simp_all add: ballMoving_def)

lemma ballMoving_timer_steps:
  assumes "ballMoving s"
  shows "ballMoving (playerEnlargeTimerStep s)" "ballMoving (aiEnlargeTimerStep s)"
    "ballMoving (playerShrinkTimerStep s)" "ballMoving (aiShrinkTimerStep s)"
    "ballMoving (slowTimerStep s)" "ballMoving (fastTimerStep s)"
  using assms
  by (auto simp add: ballMoving_def playerEnlargeTimerStep_def aiEnlargeTimerStep_def
      playerShrinkTimerStep_def aiShrinkTimerStep_def slowTimerStep_def fastTimerStep_def Let_def)

lemma ballMoving_beforeServe:
  assumes "ballMoving s"
  shows "ballMoving (beforeServe env s)"
  using assms by (simp add: beforeServe_def effectTimerSteps_def ballMoving_timer_steps)

lemma ballMoving_serveCountdownStep:
  assumes "ballMoving s"
  shows "ballMoving (serveCountdownStep env s)"
proof -
  have "0 < ballSpeedMul (DIFFICULTY_SETTINGS (difficulty s))" by (rule ballSpeedMul_pos)
  moreover have "dirNum (serveDirection s) \<noteq> 0" by (cases "serveDirection s") simp_all
  ultimately show ?thesis
    using assms by (simp add: serveCountdownStep_def resetBall_def Let_def ballMoving_def)
qed

lemma ballMoving_checkPaddleCollision:
  assumes m: "ballMoving s" and h: "54 \<le> pad_height paddle" and v: "ball_vx (ball s) \<noteq> 0"
  shows "ballMoving (checkPaddleCollision env paddle isPlayer s)"
    and "ball_vx (ball (checkPaddleCollision env paddle isPlayer s)) \<noteq> 0"
proof -
  define a where "a = (ball_y (ball s) - (pad_y paddle + pad_height paddle / 2))
                        / (pad_height paddle / 2) * (pi / 3)"
  define w where "w = min (ball_speed (ball s) * 1.05)
                        (14 * ballSpeedMul (DIFFICULTY_SETTINGS (difficulty s)))"
  have mul: "0 < ballSpeedMul (DIFFICULTY_SETTINGS (difficulty s))" by (rule ballSpeedMul_pos)
  have w: "0 < w" using m mul by (simp add: w_def ballMoving_def)
  have k: "0 < ballSlowFactor s" "0 < ballFastFactor s" using m by (simp_all add: ballMoving_def)
  have vx: "ball_vx (ball (checkPaddleCollision env paddle isPlayer s)) \<noteq> 0"
  proof (cases "paddleOverlap (ball s) paddle")
    case True
    have c: "0 < cos a" unfolding a_def
      using True m h by (intro deflection_cos_pos) (simp_all add: ballMoving_def)
    have "ball_vx (ball (checkPaddleCollision env paddle isPlayer s))
            = cos a * w * (if isPlayer then 1 else -1) * (ballSlowFactor s * ballFastFactor s)"
      using True unfolding a_def w_def
      by (simp add: checkPaddleCollision_def Let_def deflect_def powerHit_def escalateSpeed_def)
    then show ?thesis using c w k by simp
  next
    case False
    then show ?thesis using v by (simp add: checkPaddleCollision_def)
  qed
  have sp: "0 < ball_speed (ball (checkPaddleCollision env paddle isPlayer s))"
  proof (cases "paddleOverlap (ball s) paddle")
    case True
    show ?thesis
      unfolding checkPaddleCollision_speed [OF True] w_def [symmetric]
      using w mul by (simp add: min_def)
  next
    case False
    then show ?thesis using m by (simp add: checkPaddleCollision_def ballMoving_def)
  qed
  show "ball_vx (ball (checkPaddleCollision env paddle isPlayer s)) \<noteq> 0" by (rule vx)
  show "ballMoving (checkPaddleCollision env paddle isPlayer s)"
    using m vx sp by (simp add: ballMoving_def)
qed

lemma ballMoving_rallyPhysics:
  assumes m: "ballMoving s" and v: "ball_vx (ball s) \<noteq> 0"
  shows "ballMoving (rallyPhysics env s)"
proof -
  let ?w = "wallCollision (moveBall s)"
  have mw: "ballMoving ?w" using m by (simp add: ballMoving_def)
  have vw: "ball_vx (ball ?w) \<noteq> 0" using v by simp
  have hp: "54 \<le> pad_height (player ?w)" and ha: "54 \<le> pad_height (ai ?w)"
    using m by (simp_all add: ballMoving_def)
  show ?thesis
    unfolding rallyPhysics_def paddleCollisions_def
    using ballMoving_checkPaddleCollision(1) [OF mw hp vw]
      ballMoving_checkPaddleCollision(1) [OF mw ha vw]
    by simp
qed

lemma ballMoving_prepareServe [simp]: "ballMoving (prepareServe d s)"
  using ballSpeedMul_pos [of "difficulty s"]
  by (simp add: ballMoving_def prepareServe_def Let_def)

lemma ballMoving_scoring:
  assumes "ballMoving s"
  shows "ballMoving (scoring env s)"
proof -
  have a: "ballMoving (scoreRight env s)"
    using assms by (simp add: scoreRight_def Let_def) (simp add: ballMoving_def)
  have "ballMoving (scoreLeft env t)" if "ballMoving t" for t
    using that by (simp add: scoreLeft_def Let_def) (simp add: ballMoving_def)
  from this [OF a] show ?thesis by (simp add: scoring_def)
qed

lemma ballMoving_applyPowerUp:
  assumes "ballMoving s"
  shows "ballMoving (applyPowerUp pu s)"
  using assms
  by (auto simp add: ballMoving_def applyPowerUp_def Let_def split: PowerUpType.splits)

lemma ballMoving_powerUpPickup:
  assumes "ballMoving s"
  shows "ballMoving (powerUpPickup s)"
proof -
  have "ballMoving (snd (collectPowerUps (powerUps s) s))"
    using ballMoving_applyPowerUp assms by (rule collectPowerUps_invariant)
  then show ?thesis by (simp add: powerUpPickup_def split_beta ballMoving_def)
qed

lemma ballMoving_update:
  assumes "ballMoving s"
  shows "ballMoving (update env s)"
proof (cases "gameStatus s = Playing")
  case False
  then show ?thesis using assms by (simp add: update_def)
next
  case True
  have b: "ballMoving (beforeServe env s)" using assms by (rule ballMoving_beforeServe)
  show ?thesis
  proof (cases "serveCountdown (beforeServe env s) > 0")
    case c: True
    then show ?thesis
      using True b by (simp add: update_def Let_def ballMoving_serveCountdownStep)
  next
    case c: False
    then have "ball_vx (ball (beforeServe env s)) \<noteq> 0" using b by (simp add: ballMoving_def)
    with b have "ballMoving (rallyPhysics env (beforeServe env s))"
      by (rule ballMoving_rallyPhysics)
    then show ?thesis
      using True c by (simp add: update_def Let_def ballMoving_scoring ballMoving_powerUpPickup)
  qed
qed

lemma ballMoving_reachable:
  assumes "reachable s"
  shows "ballMoving s"
  using assms
proof (induction rule: reachable.induct)
  case init
  show ?case by (simp add: ballMoving_def initialState_def initialPlayer_def initialAi_def)
next
  case (start s a)
  show ?case by (simp add: startGame_def Let_def)
next
  case (tick s env)
  from tick.IH show ?case by (rule ballMoving_update)
next
  case (pause s)
  then show ?case by (simp add: togglePause_def ballMoving_def)
next
  case (blur s)
  then show ?case by (simp add: pauseIfPlaying_def ballMoving_def)
next
  case (menu s)
  then show ?case by (simp add: returnToMenu_def ballMoving_def)
next
  case (touch s x y)
  then show ?case by (simp add: handleTouch_def ballMoving_def)
next
  case (optAdaptive s b)
  then show ?case by (simp add: syncAdaptiveAI_def ballMoving_def)
next
  case (optPowerUps s b)
  then show ?case by (simp add: syncPowerUpsEnabled_def ballMoving_def Let_def)
next
  case (optSpawnRate s r)
  then show ?case by (simp add: syncPowerUpSpawnRate_def ballMoving_def)
qed

text \<open>
  Claim C9. Take a reachable state in a running match past the serve countdown, and let
  \<open>m\<close> be the state of the tick after ball movement and wall resolution. The tick
  continues from \<open>m\<close> with the paddle-collision check, which is one call of
  \<open>checkPaddleCollision\<close>: for the left paddle if \<open>vx\<close> is negative, for the right paddle
  otherwise, never for both. At that point \<open>vx\<close> is negative or positive, never zero, so
  the paddle tested is the one the ball moves towards.
\<close>

theorem one_paddle_tested:
  assumes "reachable s" and "gameStatus s = Playing" and "\<not> serveCountdown s > 0"
  shows "update env s
      = powerUpPickup (scoring env
          (paddleCollisions env (wallCollision (moveBall (beforeServe env s)))))
    \<and> paddleCollisions env (wallCollision (moveBall (beforeServe env s)))
      = (if ball_vx (ball (wallCollision (moveBall (beforeServe env s)))) < 0
         then checkPaddleCollision env (player (wallCollision (moveBall (beforeServe env s))))
                True (wallCollision (moveBall (beforeServe env s)))
         else checkPaddleCollision env (ai (wallCollision (moveBall (beforeServe env s))))
                False (wallCollision (moveBall (beforeServe env s))))
    \<and> (ball_vx (ball (wallCollision (moveBall (beforeServe env s)))) < 0
        \<or> 0 < ball_vx (ball (wallCollision (moveBall (beforeServe env s)))))"
proof -
  have u: "update env s
      = powerUpPickup (scoring env
          (paddleCollisions env (wallCollision (moveBall (beforeServe env s)))))"
    using assms(2,3) by (simp add: update_def Let_def rallyPhysics_def)
  have "ballMoving (beforeServe env s)"
    using ballMoving_reachable [OF assms(1)] by (rule ballMoving_beforeServe)
  then have "ball_vx (ball (beforeServe env s)) \<noteq> 0"
    using assms(3) by (simp add: ballMoving_def)
  then have v: "ball_vx (ball (wallCollision (moveBall (beforeServe env s)))) \<noteq> 0" by simp
  then have d: "ball_vx (ball (wallCollision (moveBall (beforeServe env s)))) < 0
        \<or> 0 < ball_vx (ball (wallCollision (moveBall (beforeServe env s))))" by linarith
  have pc: "paddleCollisions env (wallCollision (moveBall (beforeServe env s)))
      = (if ball_vx (ball (wallCollision (moveBall (beforeServe env s)))) < 0
         then checkPaddleCollision env (player (wallCollision (moveBall (beforeServe env s))))
                True (wallCollision (moveBall (beforeServe env s)))
         else checkPaddleCollision env (ai (wallCollision (moveBall (beforeServe env s))))
                False (wallCollision (moveBall (beforeServe env s))))"
    by (simp only: paddleCollisions_def)
  show ?thesis by (intro conjI) (rule u, rule pc, rule d)
qed

lemma update_during_countdown:
  assumes "gameStatus s = Playing" and "serveCountdown s > 0"
  shows "gameStatus (update env s) = Playing"
    and "serveCountdown (update env s)
           = (if serveCountdown s - dt \<le> 0 then 0 else serveCountdown s - dt)"
proof -
  have u: "update env s = serveCountdownStep env (beforeServe env s)"
    using assms by (simp add: update_def Let_def)
  show "gameStatus (update env s) = Playing" unfolding u using assms(1) by simp
  show "serveCountdown (update env s)
           = (if serveCountdown s - dt \<le> 0 then 0 else serveCountdown s - dt)"
    unfolding u by (simp add: serveCountdownStep_def resetBall_def Let_def)
qed

lemma countdown_ticks:
  assumes "gameStatus s = Playing" and "serveCountdown s = 3" and "n \<le> 180"
  shows "gameStatus ((update env ^^ n) s) = Playing
    \<and> serveCountdown ((update env ^^ n) s) = 3 - real n / 60"
  using assms(3)
proof (induction n)
  case 0
  show ?case using assms(1,2) by simp
next
  case (Suc n)
  then have ih: "gameStatus ((update env ^^ n) s) = Playing"
    "serveCountdown ((update env ^^ n) s) = 3 - real n / 60" by simp_all
  have n: "real n < 180" using Suc.prems by simp
  then have pos: "serveCountdown ((update env ^^ n) s) > 0" unfolding ih(2) by simp
  have le: "real n + 1 \<le> 180" using Suc.prems by simp
  show ?case
    using update_during_countdown [OF ih(1) pos, of env] ih(2) le
    by (simp add: field_simps)
qed

lemma reachable_ticks:
  assumes "reachable s"
  shows "reachable ((update env ^^ n) s)"
  by (induction n) (simp_all add: assms reachable.tick)

theorem one_paddle_tested_witness:
  "reachable ((update idleEnv ^^ 180) (startGame firstMatch initialState))
    \<and> gameStatus ((update idleEnv ^^ 180) (startGame firstMatch initialState)) = Playing
    \<and> \<not> serveCountdown ((update idleEnv ^^ 180) (startGame firstMatch initialState)) > 0
    \<and> (ball_vx (ball (wallCollision (moveBall (beforeServe idleEnv
           ((update idleEnv ^^ 180) (startGame firstMatch initialState)))))) < 0
        \<or> 0 < ball_vx (ball (wallCollision (moveBall (beforeServe idleEnv
           ((update idleEnv ^^ 180) (startGame firstMatch initialState)))))))"
proof -
  let ?s0 = "startGame firstMatch initialState"
  have r: "reachable ((update idleEnv ^^ 180) ?s0)"
    by (intro reachable_ticks reachable.start reachable.init)
  have "gameStatus ?s0 = Playing" "serveCountdown ?s0 = 3"
    by (simp_all add: startGame_def prepareServe_def Let_def)
  from countdown_ticks [OF this, of 180 idleEnv]
  have p: "gameStatus ((update idleEnv ^^ 180) ?s0) = Playing"
    and c: "\<not> serveCountdown ((update idleEnv ^^ 180) ?s0) > 0" by simp_all
  from one_paddle_tested [OF r p c, of idleEnv] r p c show ?thesis by blast
qed

end
